theory Spec2Isabelle
  imports Main "HOL-Library.Word"
begin

section \<open>The agent server of the scheduler (scheduler/pkg/agent/server.go)\<close>

text \<open>
  The agent server keeps a registry of the connected server replicas (\<open>agents\<close>), pushes
  load and unload commands to them over their subscription streams (\<open>Sync\<close>), takes their
  reports (\<open>AgentEvent\<close>) and handles their connections (\<open>Subscribe\<close>, \<open>syncMessage\<close>).

  The store, the scheduler and the gRPC streams are collaborators behind interfaces
  (\<open>store.SchedulerStore\<close>, \<open>scheduler.Scheduler\<close>, \<open>pb.AgentService_SubscribeServer\<close>);
  their implementations are not part of the file. They are modelled as an environment
  \<open>Env\<close> that answers every call, where the answer may depend on everything that has
  happened before (the history of events). Each function of the server returns the events
  it produces: its calls to the collaborators with their answers, and its log lines.
\<close>

subsection \<open>Data\<close>

text \<open>
  Modelled from the spec: \<open>store.ModelReplicaState\<close> is declared in the store package;
  these are the values the spec lists for the replica state.
\<close>

datatype ModelReplicaState =
    ModelReplicaStateUnknown
  | LoadRequested
  | Loading
  | Loaded
  | LoadFailed
  | UnloadRequested
  | Unloading
  | Unloaded

text \<open>\<open>ServerKey\<close>: the key of the registry, a server name and a \<open>uint32\<close> replica index.\<close>

record ServerKey =
  serverName :: string
  replicaIdx :: "32 word"

text \<open>Streams and channels are handles; only their identity matters here.\<close>

type_synonym stream = nat
type_synonym chan = nat

record AgentSubscriber =
  finished :: chan
  stream :: stream

text \<open>\<open>Server\<close>: the registry of connected replicas. The logger, the store, the scheduler
  and the streams are the environment; the mutex is not modelled (every function below is
  one critical section or a sequence of them, run alone).\<close>

record Server =
  agents :: "ServerKey \<rightharpoonup> AgentSubscriber"

text \<open>A Go \<open>error\<close> coming from a collaborator, with the text its \<open>Error()\<close> gives.\<close>

datatype error = GoError string

fun Error_text :: "error \<Rightarrow> string" where
  "Error_text (GoError m) = m"

text \<open>A gRPC status error, as built by \<open>status.Error(code, msg)\<close>.\<close>

datatype Code = Internal

datatype status = StatusError Code string

text \<open>
  Modelled from the spec: a model version as \<open>Sync\<close> reads it, through the methods
  \<open>Key()\<close>, \<open>GetModel()\<close>, \<open>GetVersion()\<close>, \<open>Server()\<close> and \<open>GetReplicaForState(state)\<close>
  of \<open>store.ModelVersion\<close> (declared in the store package). Each field is what the method
  returns; \<open>GetReplicaForState\<close> gives the replica indices (Go \<open>int\<close>) that are in a state.
  \<open>GetModel()\<close> is the model's descriptor, opaque to the server.
\<close>

type_synonym ModelDetails = string

record ModelVersion =
  Key :: string
  GetModel :: ModelDetails
  GetVersion :: "32 word"
  Server :: string
  GetReplicaForState :: "ModelReplicaState \<Rightarrow> int list"

text \<open>
  Modelled from the spec: a model as \<open>Sync\<close> reads it: its field \<open>Versions\<close> and what
  \<open>GetLatest()\<close> returns (\<open>None\<close> for \<open>nil\<close>).
\<close>

record Model =
  Versions :: "ModelVersion list"
  GetLatest :: "ModelVersion option"

text \<open>The messages of the agent protocol (package \<open>pb\<close>), with the fields the server uses.\<close>

datatype ModelOperationMessage_Operation = LOAD_MODEL | UNLOAD_MODEL

record pb_ModelVersion =
  Model :: ModelDetails
  Version :: "32 word"

record ModelOperationMessage =
  Operation :: ModelOperationMessage_Operation
  ModelVersion :: pb_ModelVersion

text \<open>
  Modelled from the spec: the event kinds of a report are an enumeration of \<open>pb\<close>; the four
  kinds the server names, and \<open>OTHER_EVENT n\<close> for every other value on the wire.
\<close>

datatype ModelEventMessage_Event =
    LOADED
  | UNLOADED
  | LOAD_FAILED
  | LOAD_FAIL_MEMORY
  | OTHER_EVENT "32 word"

record ModelEventMessage =
  msg_ModelName :: string
  msg_ModelVersion :: "32 word"
  msg_ServerName :: string
  msg_ReplicaIdx :: "32 word"
  msg_Event :: ModelEventMessage_Event
  msg_AvailableMemoryBytes :: "64 word"
  msg_Message :: string

datatype ModelEventResponse = ModelEventResponse

record AgentSubscribeRequest =
  req_ServerName :: string
  req_ReplicaIdx :: "32 word"

subsection \<open>Events and the environment\<close>

datatype Level = LogDebug | LogInfo | LogError

text \<open>
  An event is a log line (its level and its format string) or a call to a collaborator with
  its arguments and its answer. \<open>StreamSend\<close> also records the registry key under which
  the stream was found.
\<close>

datatype Event =
    is_Log: Log Level string
  | is_StoreGetModel: StoreGetModel string "error option"
  | is_StreamSend: StreamSend ServerKey stream ModelOperationMessage "error option"
  | is_StoreUpdateModelState:
      StoreUpdateModelState string "32 word" string int "64 word option" ModelReplicaState string
        "error option"
  | is_StoreAddServerReplica: StoreAddServerReplica AgentSubscribeRequest "error option"
  | is_StoreRemoveServerReplica: StoreRemoveServerReplica string int "string list" "error option"
  | is_SchedulerSchedule: SchedulerSchedule string "error option"
  | is_SchedulerScheduleFailedModels: SchedulerScheduleFailedModels "error option"

text \<open>
  The environment: what each collaborator answers to a call, given the history. A Go pair
  \<open>(value, err)\<close> is a pair; \<open>None\<close> is \<open>nil\<close>. The first result of
  \<open>ScheduleFailedModels\<close> is discarded by its only caller and is left out.
\<close>

record Env =
  GetModel_result :: "Event list \<Rightarrow> string \<Rightarrow> Model option \<times> error option"
  UpdateModelState_result ::
    "Event list \<Rightarrow> string \<Rightarrow> 32 word \<Rightarrow> string \<Rightarrow> int \<Rightarrow> 64 word option \<Rightarrow> ModelReplicaState
      \<Rightarrow> string \<Rightarrow> error option"
  AddServerReplica_result :: "Event list \<Rightarrow> AgentSubscribeRequest \<Rightarrow> error option"
  RemoveServerReplica_result :: "Event list \<Rightarrow> string \<Rightarrow> int \<Rightarrow> string list \<times> error option"
  Schedule_result :: "Event list \<Rightarrow> string \<Rightarrow> error option"
  ScheduleFailedModels_result :: "Event list \<Rightarrow> error option"
  Send_result :: "Event list \<Rightarrow> stream \<Rightarrow> ModelOperationMessage \<Rightarrow> error option"

subsection \<open>Sync\<close>

text \<open>
  One iteration of the first loop of \<open>Sync\<close> (the load requests of the latest version),
  for the replica index \<open>rIdx\<close>, after the history \<open>h\<close>. \<open>uint32(replicaIdx)\<close> is
  \<open>word_of_int\<close>: it keeps the low 32 bits.
\<close>

definition Sync_load_replica ::
  "Env \<Rightarrow> Server \<Rightarrow> string \<Rightarrow> ModelVersion \<Rightarrow> int \<Rightarrow> Event list \<Rightarrow> Event list" where
  "Sync_load_replica env s modelName latestModel rIdx h =
    (let t1 = [Log LogInfo ''Sending load model request for %s''];
         k = \<lparr>serverName = Server latestModel, replicaIdx = word_of_int rIdx\<rparr>
     in case agents s k of
          None \<Rightarrow> t1 @ [Log LogError ''Failed to find server replica for %s:%d'']
        | Some as \<Rightarrow>
            (let m = \<lparr>Operation = LOAD_MODEL,
                      ModelVersion = \<lparr>Model = GetModel latestModel, Version = GetVersion latestModel\<rparr>\<rparr>;
                 err = Send_result env (h @ t1) (stream as) m;
                 t2 = t1 @ [StreamSend k (stream as) m err]
             in case err of
                  Some e \<Rightarrow>
                    t2 @ [Log LogError ''stream message send failed for model %s and replicaidx %d'']
                | None \<Rightarrow>
                    (let err2 = UpdateModelState_result env (h @ t2) (Key latestModel)
                                  (GetVersion latestModel) (Server latestModel) rIdx None Loading '''';
                         t3 = t2 @ [StoreUpdateModelState (Key latestModel) (GetVersion latestModel)
                                      (Server latestModel) rIdx None Loading '''' err2]
                     in case err2 of
                          Some e \<Rightarrow>
                            t3 @ [Log LogError ''Sync set model state failed for model %s replicaidx %d'']
                        | None \<Rightarrow> t3)))"

fun Sync_load_loop ::
  "Env \<Rightarrow> Server \<Rightarrow> string \<Rightarrow> ModelVersion \<Rightarrow> int list \<Rightarrow> Event list \<Rightarrow> Event list" where
  "Sync_load_loop env s modelName latestModel [] h = []"
| "Sync_load_loop env s modelName latestModel (rIdx # rest) h =
    (let t = Sync_load_replica env s modelName latestModel rIdx h
     in t @ Sync_load_loop env s modelName latestModel rest (h @ t))"

text \<open>One iteration of the inner loop of the second loop (the unload requests).\<close>

definition Sync_unload_replica ::
  "Env \<Rightarrow> Server \<Rightarrow> string \<Rightarrow> ModelVersion \<Rightarrow> int \<Rightarrow> Event list \<Rightarrow> Event list" where
  "Sync_unload_replica env s modelName modelVersion rIdx h =
    (let t1 = [Log LogInfo ''Sending unload model request for %s''];
         k = \<lparr>serverName = Server modelVersion, replicaIdx = word_of_int rIdx\<rparr>
     in case agents s k of
          None \<Rightarrow> t1 @ [Log LogError ''Failed to find server replica for %s:%d'']
        | Some as \<Rightarrow>
            (let m = \<lparr>Operation = UNLOAD_MODEL,
                      ModelVersion = \<lparr>Model = GetModel modelVersion, Version = GetVersion modelVersion\<rparr>\<rparr>;
                 err = Send_result env (h @ t1) (stream as) m;
                 t2 = t1 @ [StreamSend k (stream as) m err]
             in case err of
                  Some e \<Rightarrow>
                    t2 @ [Log LogError ''stream message send failed for model %s and replicaidx %d'']
                | None \<Rightarrow>
                    (let err2 = UpdateModelState_result env (h @ t2) (Key modelVersion)
                                  (GetVersion modelVersion) (Server modelVersion) rIdx None Unloading '''';
                         t3 = t2 @ [StoreUpdateModelState (Key modelVersion) (GetVersion modelVersion)
                                      (Server modelVersion) rIdx None Unloading '''' err2]
                     in case err2 of
                          Some e \<Rightarrow>
                            t3 @ [Log LogError ''Sync set model state failed for model %s replicaidx %d'']
                        | None \<Rightarrow> t3)))"

fun Sync_unload_loop ::
  "Env \<Rightarrow> Server \<Rightarrow> string \<Rightarrow> ModelVersion \<Rightarrow> int list \<Rightarrow> Event list \<Rightarrow> Event list" where
  "Sync_unload_loop env s modelName modelVersion [] h = []"
| "Sync_unload_loop env s modelName modelVersion (rIdx # rest) h =
    (let t = Sync_unload_replica env s modelName modelVersion rIdx h
     in t @ Sync_unload_loop env s modelName modelVersion rest (h @ t))"

text \<open>The outer loop of the second loop: every version of the model, in order.\<close>

fun Sync_versions_loop ::
  "Env \<Rightarrow> Server \<Rightarrow> string \<Rightarrow> ModelVersion list \<Rightarrow> Event list \<Rightarrow> Event list" where
  "Sync_versions_loop env s modelName [] h = []"
| "Sync_versions_loop env s modelName (modelVersion # rest) h =
    (let t = Sync_unload_loop env s modelName modelVersion
               (GetReplicaForState modelVersion UnloadRequested) h
     in t @ Sync_versions_loop env s modelName rest (h @ t))"

text \<open>\<open>Sync\<close>: the events of one reconciliation pass for \<open>modelName\<close> after the history \<open>h\<close>.
  It reads the registry and does not change it.\<close>

definition Sync :: "Env \<Rightarrow> Server \<Rightarrow> string \<Rightarrow> Event list \<Rightarrow> Event list" where
  "Sync env s modelName h =
    (case GetModel_result env h modelName of (model, err) \<Rightarrow>
      (let t0 = [StoreGetModel modelName err]
       in case err of
            Some e \<Rightarrow> t0 @ [Log LogError ''Sync failed'']
          | None \<Rightarrow>
              (case model of
                 None \<Rightarrow> t0 @ [Log LogError ''Model %s not found'']
               | Some model \<Rightarrow>
                   (let t1 = (case GetLatest model of
                                None \<Rightarrow> []
                              | Some latestModel \<Rightarrow>
                                  Sync_load_loop env s modelName latestModel
                                    (GetReplicaForState latestModel LoadRequested) (h @ t0))
                    in t0 @ t1 @ Sync_versions_loop env s modelName (Versions model) (h @ t0 @ t1)))))"

subsection \<open>AgentEvent\<close>

text \<open>The \<open>switch\<close> of \<open>AgentEvent\<close>: the state a report's event kind stands for.\<close>

fun AgentEvent_state :: "ModelEventMessage_Event \<Rightarrow> ModelReplicaState" where
  "AgentEvent_state LOADED = Loaded"
| "AgentEvent_state UNLOADED = Unloaded"
| "AgentEvent_state LOAD_FAILED = LoadFailed"
| "AgentEvent_state LOAD_FAIL_MEMORY = LoadFailed"
| "AgentEvent_state (OTHER_EVENT n) = ModelReplicaStateUnknown"

text \<open>\<open>AgentEvent\<close>: the result (\<open>Inl\<close> the error) and the events. \<open>int(message.ReplicaIdx)\<close>
  is \<open>uint\<close>, the value of the \<open>uint32\<close> (Go's \<open>int\<close> has 64 bits on the platforms the
  scheduler is built for).\<close>

definition AgentEvent ::
  "Env \<Rightarrow> ModelEventMessage \<Rightarrow> Event list \<Rightarrow> (status + ModelEventResponse) \<times> Event list" where
  "AgentEvent env message h =
    (let state = AgentEvent_state (msg_Event message);
         t1 = [Log LogInfo ''Updating state for model %s to %s''];
         err = UpdateModelState_result env (h @ t1) (msg_ModelName message) (msg_ModelVersion message)
                 (msg_ServerName message) (uint (msg_ReplicaIdx message))
                 (Some (msg_AvailableMemoryBytes message)) state (msg_Message message);
         t2 = t1 @ [StoreUpdateModelState (msg_ModelName message) (msg_ModelVersion message)
                      (msg_ServerName message) (uint (msg_ReplicaIdx message))
                      (Some (msg_AvailableMemoryBytes message)) state (msg_Message message) err]
     in case err of
          Some e \<Rightarrow>
            (Inl (StatusError Internal (Error_text e)),
             t2 @ [Log LogInfo ''Failed Updating state for model %s''])
        | None \<Rightarrow> (Inr ModelEventResponse, t2))"

subsection \<open>Subscribe\<close>

text \<open>\<open>syncMessage\<close>: the returned error and the events.\<close>

definition syncMessage ::
  "Env \<Rightarrow> AgentSubscribeRequest \<Rightarrow> stream \<Rightarrow> Event list \<Rightarrow> error option \<times> Event list" where
  "syncMessage env request strm h =
    (let t1 = [Log LogDebug ''Add Server Replica %+v with config %+v''];
         err = AddServerReplica_result env (h @ t1) request;
         t2 = t1 @ [StoreAddServerReplica request err]
     in case err of
          Some e \<Rightarrow> (Some e, t2)
        | None \<Rightarrow>
            (let err2 = ScheduleFailedModels_result env (h @ t2);
                 t3 = t2 @ [SchedulerScheduleFailedModels err2]
             in case err2 of
                  Some e \<Rightarrow> (Some e, t3)
                | None \<Rightarrow> (None, t3)))"

text \<open>The loop over \<open>modelsChanged\<close> after a disconnect.\<close>

fun Subscribe_reschedule :: "Env \<Rightarrow> string list \<Rightarrow> Event list \<Rightarrow> Event list" where
  "Subscribe_reschedule env [] h = []"
| "Subscribe_reschedule env (modelName # rest) h =
    (let err = Schedule_result env h modelName;
         t = SchedulerSchedule modelName err #
             (case err of
                Some e \<Rightarrow> [Log LogDebug ''Failed to reschedule model %s when server %s replica %d disconnected'']
              | None \<Rightarrow> [])
     in t @ Subscribe_reschedule env rest (h @ t))"

text \<open>
  What the \<open>select\<close> of \<open>Subscribe\<close> receives: the close signal on \<open>fin\<close>, the end of the
  stream's context, or neither ever (the handler then stays blocked).
\<close>

datatype Signal = Fin | CtxDone | NoSignal

datatype Outcome = Returned "error option" | Blocked

text \<open>
  \<open>Subscribe\<close>, for one connection: the registry afterwards, whether and what it returns,
  and the events. \<open>fin\<close> is the channel made by \<open>make(chan bool)\<close>; \<open>sig\<close> is what the
  \<open>select\<close> receives once the handler waits.
\<close>

definition Subscribe ::
  "Env \<Rightarrow> Server \<Rightarrow> AgentSubscribeRequest \<Rightarrow> stream \<Rightarrow> chan \<Rightarrow> Signal \<Rightarrow> Event list
    \<Rightarrow> Server \<times> Outcome \<times> Event list" where
  "Subscribe env s request strm fin sig h =
    (let t1 = [Log LogInfo ''Received subscribe request from %s:%d''];
         k = \<lparr>serverName = req_ServerName request, replicaIdx = req_ReplicaIdx request\<rparr>;
         s1 = s\<lparr>agents := (agents s)(k \<mapsto> \<lparr>finished = fin, stream = strm\<rparr>)\<rparr>
     in case syncMessage env request strm (h @ t1) of (err, ts) \<Rightarrow>
       (let t2 = t1 @ ts
        in case err of
             Some e \<Rightarrow> (s1, Returned (Some e), t2)
           | None \<Rightarrow>
               (case sig of
                  NoSignal \<Rightarrow> (s1, Blocked, t2)
                | Fin \<Rightarrow>
                    (s1, Returned None, t2 @ [Log LogInfo ''Closing stream for replica: %s:%d''])
                | CtxDone \<Rightarrow>
                    (let t3 = t2 @ [Log LogInfo ''Client replica %s:%d has disconnected''];
                         s2 = s1\<lparr>agents := (agents s1)(k := None)\<rparr>;
                         res = RemoveServerReplica_result env (h @ t3) (req_ServerName request)
                                 (uint (req_ReplicaIdx request));
                         modelsChanged = fst res;
                         err2 = snd res;
                         t4 = t3 @ [StoreRemoveServerReplica (req_ServerName request)
                                      (uint (req_ReplicaIdx request)) modelsChanged err2];
                         t5 = t4 @ (case err2 of
                                      Some e \<Rightarrow> [Log LogError ''Failed to remove replica and redeploy models for %s:%d'']
                                    | None \<Rightarrow> [])
                                 @ [Log LogDebug ''Models changed by disconnect %v'']
                     in (s2, Returned None, t5 @ Subscribe_reschedule env modelsChanged (h @ t5))))))"

subsection \<open>The order of the events of a pass\<close>

text \<open>
  A list of events is ordered when every call of \<open>UpdateModelState\<close> in it comes right after
  a successful send to the same replica, of the command that goes with the state, and every
  failed send is followed by its error line.
\<close>

definition Sync_ordered :: "Event list \<Rightarrow> bool" where
  "Sync_ordered t \<longleftrightarrow>
    (\<forall>k<length t. \<forall>key v srv i mem st msg r.
       t ! k = StoreUpdateModelState key v srv i mem st msg r \<longrightarrow>
         (st = Loading \<or> st = Unloading) \<and> 0 < k \<and>
         (\<exists>strm m. t ! (k - 1) = StreamSend \<lparr>serverName = srv, replicaIdx = word_of_int i\<rparr> strm m None \<and>
            Operation m = (if st = Loading then LOAD_MODEL else UNLOAD_MODEL) \<and>
            Version (ModelVersion m) = v)) \<and>
    (\<forall>k<length t. \<forall>key strm m e.
       t ! k = StreamSend key strm m (Some e) \<longrightarrow>
         Suc k < length t \<and>
         t ! Suc k = Log LogError ''stream message send failed for model %s and replicaidx %d'')"

text \<open>
  After a disconnect, every call of \<open>Schedule\<close> that fails is followed by its log line.
\<close>

definition reschedule_logged :: "Event list \<Rightarrow> bool" where
  "reschedule_logged t \<longleftrightarrow>
    (\<forall>k<length t. \<forall>n e. t ! k = SchedulerSchedule n (Some e) \<longrightarrow>
       Suc k < length t \<and>
       t ! Suc k = Log LogDebug ''Failed to reschedule model %s when server %s replica %d disconnected'')"

subsection \<open>The initial synchronisation, in the words of the specification\<close>

text \<open>
  The specification describes the initial synchronisation of a subscribing replica as
  replaying the reconciliation (\<open>Sync\<close>) for every model already assigned to the replica,
  followed by a retry of the scheduling of the models that could not be placed. This is that
  description, for the list \<open>assigned\<close> of those models; it is compared with \<open>syncMessage\<close>
  below.
\<close>

fun replay_Sync :: "Env \<Rightarrow> Server \<Rightarrow> string list \<Rightarrow> Event list \<Rightarrow> Event list" where
  "replay_Sync env s [] h = []"
| "replay_Sync env s (modelName # rest) h =
    (let t = Sync env s modelName h in t @ replay_Sync env s rest (h @ t))"

definition Subscribe_initial_sync_spec ::
  "Env \<Rightarrow> Server \<Rightarrow> string list \<Rightarrow> Event list \<Rightarrow> Event list" where
  "Subscribe_initial_sync_spec env s assigned h =
    (let t = replay_Sync env s assigned h
     in t @ [SchedulerScheduleFailedModels (ScheduleFailedModels_result env (h @ t))])"

subsection \<open>An example: two versions of a model, three replicas\<close>

text \<open>
  The model \<open>iris\<close> has an old version 1 and the latest version 2, both on \<open>serverA\<close>.
  Replicas 0 and 1 are connected, replica 2 is not; sends on the stream of replica 1 fail.
\<close>

definition example_old :: ModelVersion where
  "example_old =
    \<lparr>Key = ''iris'', GetModel = ''iris'', GetVersion = 1, Server = ''serverA'',
     GetReplicaForState =
       (\<lambda>st. if st = UnloadRequested then [0] else if st = LoadRequested then [1] else [])\<rparr>"

definition example_latest :: ModelVersion where
  "example_latest =
    \<lparr>Key = ''iris'', GetModel = ''iris'', GetVersion = 2, Server = ''serverA'',
     GetReplicaForState = (\<lambda>st. if st = LoadRequested then [0, 1, 2] else [])\<rparr>"

definition example_model :: Model where
  "example_model = \<lparr>Versions = [example_old, example_latest], GetLatest = Some example_latest\<rparr>"

definition example_server :: Server where
  "example_server =
    \<lparr>agents = [\<lparr>serverName = ''serverA'', replicaIdx = 0\<rparr> \<mapsto> \<lparr>finished = 20, stream = 10\<rparr>,
               \<lparr>serverName = ''serverA'', replicaIdx = 1\<rparr> \<mapsto> \<lparr>finished = 21, stream = 11\<rparr>]\<rparr>"

definition example_env :: Env where
  "example_env =
    \<lparr>GetModel_result = (\<lambda>h n. if n = ''iris'' then (Some example_model, None) else (None, None)),
     UpdateModelState_result =
       (\<lambda>h key v srv i mem st msg. if key = ''iris'' then None else Some (GoError ''model not found'')),
     AddServerReplica_result =
       (\<lambda>h r. if req_ServerName r = ''serverA'' then None else Some (GoError ''unknown server'')),
     RemoveServerReplica_result = (\<lambda>h srv i. ([''iris'', ''wine''], None)),
     Schedule_result = (\<lambda>h n. if n = ''iris'' then Some (GoError ''no capacity'') else None),
     ScheduleFailedModels_result = (\<lambda>h. None),
     Send_result = (\<lambda>h strm m. if strm = 11 then Some (GoError ''EOF'') else None)\<rparr>"

text \<open>A subscribe request of replica 0 of \<open>serverA\<close>, and a report that it has loaded
  version 2 of the model.\<close>

definition example_request :: AgentSubscribeRequest where
  "example_request = \<lparr>req_ServerName = ''serverA'', req_ReplicaIdx = 0\<rparr>"

definition example_report :: ModelEventMessage where
  "example_report =
    \<lparr>msg_ModelName = ''iris'', msg_ModelVersion = 2, msg_ServerName = ''serverA'',
     msg_ReplicaIdx = 0, msg_Event = LOADED, msg_AvailableMemoryBytes = 1000, msg_Message = []\<rparr>"

text \<open>A report with an event kind the server does not name, for a model the store does not
  have, and a subscribe request of a server the store does not know.\<close>

definition example_failed_report :: ModelEventMessage where
  "example_failed_report =
    \<lparr>msg_ModelName = ''wine'', msg_ModelVersion = 1, msg_ServerName = ''serverA'',
     msg_ReplicaIdx = 1, msg_Event = OTHER_EVENT 7, msg_AvailableMemoryBytes = 0,
     msg_Message = ''out of memory''\<rparr>"

definition example_unknown_request :: AgentSubscribeRequest where
  "example_unknown_request = \<lparr>req_ServerName = ''serverB'', req_ReplicaIdx = 3\<rparr>"

text \<open>The same environment, but \<open>RemoveServerReplica\<close> fails and still names a model.\<close>

definition example_env_remove_fails :: Env where
  "example_env_remove_fails =
    example_env\<lparr>RemoveServerReplica_result :=
      (\<lambda>h srv i. ([''iris''], Some (GoError ''replica not found'')))\<rparr>"

section \<open>Properties\<close>

subsection \<open>One iteration of the loops of Sync\<close>

lemma Sync_load_replica_shape:
  "Sync_load_replica env s n mv i h = t \<Longrightarrow>
   k = \<lparr>serverName = Server mv, replicaIdx = word_of_int i\<rparr> \<Longrightarrow>
   m = \<lparr>Operation = LOAD_MODEL, ModelVersion = \<lparr>Model = GetModel mv, Version = GetVersion mv\<rparr>\<rparr> \<Longrightarrow>
   (agents s k = None \<and>
      t = [Log LogInfo ''Sending load model request for %s'',
           Log LogError ''Failed to find server replica for %s:%d'']) \<or>
   (\<exists>as e. agents s k = Some as \<and>
      t = [Log LogInfo ''Sending load model request for %s'',
           StreamSend k (stream as) m (Some e),
           Log LogError ''stream message send failed for model %s and replicaidx %d'']) \<or>
   (\<exists>as. agents s k = Some as \<and>
      t = [Log LogInfo ''Sending load model request for %s'',
           StreamSend k (stream as) m None,
           StoreUpdateModelState (Key mv) (GetVersion mv) (Server mv) i None Loading '''' None]) \<or>
   (\<exists>as e. agents s k = Some as \<and>
      t = [Log LogInfo ''Sending load model request for %s'',
           StreamSend k (stream as) m None,
           StoreUpdateModelState (Key mv) (GetVersion mv) (Server mv) i None Loading '''' (Some e),
           Log LogError ''Sync set model state failed for model %s replicaidx %d''])"
  by (auto simp: Sync_load_replica_def Let_def split: option.splits)

lemma Sync_unload_replica_shape:
  "Sync_unload_replica env s n mv i h = t \<Longrightarrow>
   k = \<lparr>serverName = Server mv, replicaIdx = word_of_int i\<rparr> \<Longrightarrow>
   m = \<lparr>Operation = UNLOAD_MODEL, ModelVersion = \<lparr>Model = GetModel mv, Version = GetVersion mv\<rparr>\<rparr> \<Longrightarrow>
   (agents s k = None \<and>
      t = [Log LogInfo ''Sending unload model request for %s'',
           Log LogError ''Failed to find server replica for %s:%d'']) \<or>
   (\<exists>as e. agents s k = Some as \<and>
      t = [Log LogInfo ''Sending unload model request for %s'',
           StreamSend k (stream as) m (Some e),
           Log LogError ''stream message send failed for model %s and replicaidx %d'']) \<or>
   (\<exists>as. agents s k = Some as \<and>
      t = [Log LogInfo ''Sending unload model request for %s'',
           StreamSend k (stream as) m None,
           StoreUpdateModelState (Key mv) (GetVersion mv) (Server mv) i None Unloading '''' None]) \<or>
   (\<exists>as e. agents s k = Some as \<and>
      t = [Log LogInfo ''Sending unload model request for %s'',
           StreamSend k (stream as) m None,
           StoreUpdateModelState (Key mv) (GetVersion mv) (Server mv) i None Unloading '''' (Some e),
           Log LogError ''Sync set model state failed for model %s replicaidx %d''])"
  by (auto simp: Sync_unload_replica_def Let_def split: option.splits)


lemma Sync_ordered_Nil: "Sync_ordered []"
  by (simp add: Sync_ordered_def)

lemma Sync_ordered_append:
  assumes "Sync_ordered xs" and "Sync_ordered ys"
  shows "Sync_ordered (xs @ ys)"
  unfolding Sync_ordered_def
proof (intro conjI allI impI)
  fix k key v srv i mem st msg r
  assume k: "k < length (xs @ ys)"
    and e: "(xs @ ys) ! k = StoreUpdateModelState key v srv i mem st msg r"
  show "st = Loading \<or> st = Unloading"
  proof (cases "k < length xs")
    case True
    then have "xs ! k = StoreUpdateModelState key v srv i mem st msg r"
      using e by (simp add: nth_append)
    with True assms(1) show ?thesis unfolding Sync_ordered_def by blast
  next
    case False
    then have "ys ! (k - length xs) = StoreUpdateModelState key v srv i mem st msg r"
      and "k - length xs < length ys"
      using k e by (auto simp: nth_append)
    with assms(2) show ?thesis unfolding Sync_ordered_def by blast
  qed
  show "0 < k"
  proof (cases "k < length xs")
    case True
    then show ?thesis using assms(1) e by (auto simp: Sync_ordered_def nth_append)
  next
    case False
    then have "ys ! (k - length xs) = StoreUpdateModelState key v srv i mem st msg r"
      and "k - length xs < length ys"
      using k e by (auto simp: nth_append)
    then have "0 < k - length xs" using assms(2) unfolding Sync_ordered_def by blast
    then show ?thesis by simp
  qed
  show "\<exists>strm m. (xs @ ys) ! (k - 1) =
          StreamSend \<lparr>serverName = srv, replicaIdx = word_of_int i\<rparr> strm m None \<and>
          Operation m = (if st = Loading then LOAD_MODEL else UNLOAD_MODEL) \<and>
          Version (ModelVersion m) = v"
  proof (cases "k < length xs")
    case True
    then have "xs ! k = StoreUpdateModelState key v srv i mem st msg r"
      using e by (simp add: nth_append)
    with True assms(1) have "0 < k \<and> (\<exists>strm m. xs ! (k - 1) =
          StreamSend \<lparr>serverName = srv, replicaIdx = word_of_int i\<rparr> strm m None \<and>
          Operation m = (if st = Loading then LOAD_MODEL else UNLOAD_MODEL) \<and>
          Version (ModelVersion m) = v)"
      unfolding Sync_ordered_def by blast
    moreover have "(xs @ ys) ! (k - 1) = xs ! (k - 1)"
      using True by (simp add: nth_append less_imp_diff_less)
    ultimately show ?thesis by simp
  next
    case False
    then have y: "ys ! (k - length xs) = StoreUpdateModelState key v srv i mem st msg r"
      and l: "k - length xs < length ys"
      using k e by (auto simp: nth_append)
    with assms(2) have p: "0 < k - length xs \<and> (\<exists>strm m. ys ! (k - length xs - 1) =
          StreamSend \<lparr>serverName = srv, replicaIdx = word_of_int i\<rparr> strm m None \<and>
          Operation m = (if st = Loading then LOAD_MODEL else UNLOAD_MODEL) \<and>
          Version (ModelVersion m) = v)"
      unfolding Sync_ordered_def by blast
    then have "(xs @ ys) ! (k - 1) = ys ! (k - length xs - 1)"
      by (auto simp: nth_append)
    with p show ?thesis by simp
  qed
next
  fix k key strm m e
  assume k: "k < length (xs @ ys)"
    and e: "(xs @ ys) ! k = StreamSend key strm m (Some e)"
  show "Suc k < length (xs @ ys)"
  proof (cases "k < length xs")
    case True
    then have "xs ! k = StreamSend key strm m (Some e)" using e by (simp add: nth_append)
    with True assms(1) have "Suc k < length xs" unfolding Sync_ordered_def by blast
    then show ?thesis by simp
  next
    case False
    then have "ys ! (k - length xs) = StreamSend key strm m (Some e)" and "k - length xs < length ys"
      using k e by (auto simp: nth_append)
    with assms(2) have "Suc (k - length xs) < length ys" unfolding Sync_ordered_def by blast
    then show ?thesis by simp
  qed
  show "(xs @ ys) ! Suc k = Log LogError ''stream message send failed for model %s and replicaidx %d''"
  proof (cases "k < length xs")
    case True
    then have "xs ! k = StreamSend key strm m (Some e)" using e by (simp add: nth_append)
    with True assms(1) have "Suc k < length xs \<and>
        xs ! Suc k = Log LogError ''stream message send failed for model %s and replicaidx %d''"
      unfolding Sync_ordered_def by blast
    then show ?thesis by (simp add: nth_append)
  next
    case False
    then have "ys ! (k - length xs) = StreamSend key strm m (Some e)" and "k - length xs < length ys"
      using k e by (auto simp: nth_append)
    with assms(2) have "ys ! Suc (k - length xs) =
        Log LogError ''stream message send failed for model %s and replicaidx %d''"
      unfolding Sync_ordered_def by blast
    moreover have "(xs @ ys) ! Suc k = ys ! Suc (k - length xs)"
      using False by (simp add: nth_append Suc_diff_le)
    ultimately show ?thesis by simp
  qed
qed

lemma less_4_cases: "k < 4 \<Longrightarrow> k = 0 \<or> k = Suc 0 \<or> k = 2 \<or> k = (3::nat)"
  by arith

lemma Sync_load_replica_ordered: "Sync_ordered (Sync_load_replica env s n mv i h)"
  using Sync_load_replica_shape [where env=env and s=s and n=n and mv=mv and i=i and h=h, OF refl refl refl]
  by (elim disjE exE conjE; simp add: Sync_ordered_def; auto simp: nth_Cons' dest!: less_4_cases)

lemma Sync_unload_replica_ordered: "Sync_ordered (Sync_unload_replica env s n mv i h)"
  using Sync_unload_replica_shape [where env=env and s=s and n=n and mv=mv and i=i and h=h, OF refl refl refl]
  by (elim disjE exE conjE; simp add: Sync_ordered_def; auto simp: nth_Cons' dest!: less_4_cases)

lemma Sync_load_loop_ordered: "Sync_ordered (Sync_load_loop env s n mv idxs h)"
  by (induction idxs arbitrary: h)
     (simp_all add: Sync_ordered_Nil Let_def Sync_ordered_append Sync_load_replica_ordered)

lemma Sync_unload_loop_ordered: "Sync_ordered (Sync_unload_loop env s n mv idxs h)"
  by (induction idxs arbitrary: h)
     (simp_all add: Sync_ordered_Nil Let_def Sync_ordered_append Sync_unload_replica_ordered)

lemma Sync_versions_loop_ordered: "Sync_ordered (Sync_versions_loop env s n vs h)"
  by (induction vs arbitrary: h)
     (simp_all add: Sync_ordered_Nil Let_def Sync_ordered_append Sync_unload_loop_ordered)

lemma Sync_ordered_single: "\<not> is_StoreUpdateModelState e \<Longrightarrow> \<not> is_StreamSend e \<Longrightarrow> Sync_ordered [e]"
  by (auto simp: Sync_ordered_def)

lemma Sync_ordered_Cons:
  "\<not> is_StoreUpdateModelState e \<Longrightarrow> \<not> is_StreamSend e \<Longrightarrow> Sync_ordered t \<Longrightarrow> Sync_ordered (e # t)"
  using Sync_ordered_append [OF Sync_ordered_single, of e t] by simp

lemma Sync_is_ordered: "Sync_ordered (Sync env s n h)"
proof (cases "GetModel_result env h n")
  case (Pair model err)
  show ?thesis
  proof (cases err)
    case (Some e)
    with Pair show ?thesis
      by (simp add: Sync_def Sync_ordered_Cons Sync_ordered_Nil)
  next
    case None
    show ?thesis
    proof (cases model)
      case no: None
      with Pair None show ?thesis
        by (simp add: Sync_def Sync_ordered_Cons Sync_ordered_Nil)
    next
      case (Some m)
      with Pair None show ?thesis
        by (cases "GetLatest m")
           (simp_all add: Sync_def Let_def Sync_ordered_Cons Sync_ordered_append
              Sync_load_loop_ordered Sync_versions_loop_ordered)
    qed
  qed
qed


lemma Sync_load_replica_send:
  "StreamSend k strm m r \<in> set (Sync_load_replica env s n mv i h) \<Longrightarrow>
     k = \<lparr>serverName = Server mv, replicaIdx = word_of_int i\<rparr> \<and>
     (\<exists>as. agents s k = Some as \<and> strm = stream as) \<and>
     m = \<lparr>Operation = LOAD_MODEL, ModelVersion = \<lparr>Model = GetModel mv, Version = GetVersion mv\<rparr>\<rparr>"
  using Sync_load_replica_shape [where env=env and s=s and n=n and mv=mv and i=i and h=h, OF refl refl refl]
  by auto

lemma Sync_unload_replica_send:
  "StreamSend k strm m r \<in> set (Sync_unload_replica env s n mv i h) \<Longrightarrow>
     k = \<lparr>serverName = Server mv, replicaIdx = word_of_int i\<rparr> \<and>
     (\<exists>as. agents s k = Some as \<and> strm = stream as) \<and>
     m = \<lparr>Operation = UNLOAD_MODEL, ModelVersion = \<lparr>Model = GetModel mv, Version = GetVersion mv\<rparr>\<rparr>"
  using Sync_unload_replica_shape [where env=env and s=s and n=n and mv=mv and i=i and h=h, OF refl refl refl]
  by auto

lemma Sync_load_replica_send_ex:
  "agents s \<lparr>serverName = Server mv, replicaIdx = word_of_int i\<rparr> = Some as \<Longrightarrow>
     \<exists>r. StreamSend \<lparr>serverName = Server mv, replicaIdx = word_of_int i\<rparr> (stream as)
            \<lparr>Operation = LOAD_MODEL, ModelVersion = \<lparr>Model = GetModel mv, Version = GetVersion mv\<rparr>\<rparr> r
          \<in> set (Sync_load_replica env s n mv i h)"
  using Sync_load_replica_shape [where env=env and s=s and n=n and mv=mv and i=i and h=h, OF refl refl refl]
  by auto

lemma Sync_unload_replica_send_ex:
  "agents s \<lparr>serverName = Server mv, replicaIdx = word_of_int i\<rparr> = Some as \<Longrightarrow>
     \<exists>r. StreamSend \<lparr>serverName = Server mv, replicaIdx = word_of_int i\<rparr> (stream as)
            \<lparr>Operation = UNLOAD_MODEL, ModelVersion = \<lparr>Model = GetModel mv, Version = GetVersion mv\<rparr>\<rparr> r
          \<in> set (Sync_unload_replica env s n mv i h)"
  using Sync_unload_replica_shape [where env=env and s=s and n=n and mv=mv and i=i and h=h, OF refl refl refl]
  by auto

lemma Sync_load_replica_update:
  "StoreUpdateModelState key v srv j mem st msg r \<in> set (Sync_load_replica env s n mv i h) \<Longrightarrow>
     srv = Server mv \<and> j = i \<and> st = Loading \<and>
     agents s \<lparr>serverName = srv, replicaIdx = word_of_int j\<rparr> \<noteq> None"
  using Sync_load_replica_shape [where env=env and s=s and n=n and mv=mv and i=i and h=h, OF refl refl refl]
  by auto

lemma Sync_unload_replica_update:
  "StoreUpdateModelState key v srv j mem st msg r \<in> set (Sync_unload_replica env s n mv i h) \<Longrightarrow>
     srv = Server mv \<and> j = i \<and> st = Unloading \<and>
     agents s \<lparr>serverName = srv, replicaIdx = word_of_int j\<rparr> \<noteq> None"
  using Sync_unload_replica_shape [where env=env and s=s and n=n and mv=mv and i=i and h=h, OF refl refl refl]
  by auto

lemma Sync_load_loop_send:
  "StreamSend k strm m r \<in> set (Sync_load_loop env s n mv idxs h) \<Longrightarrow>
     \<exists>i\<in>set idxs. k = \<lparr>serverName = Server mv, replicaIdx = word_of_int i\<rparr> \<and>
       (\<exists>as. agents s k = Some as \<and> strm = stream as) \<and>
       m = \<lparr>Operation = LOAD_MODEL, ModelVersion = \<lparr>Model = GetModel mv, Version = GetVersion mv\<rparr>\<rparr>"
proof (induction idxs arbitrary: h)
  case Nil
  then show ?case by simp
next
  case (Cons i idxs)
  from Cons.prems consider
      (hd) "StreamSend k strm m r \<in> set (Sync_load_replica env s n mv i h)"
    | (tl) "StreamSend k strm m r \<in>
              set (Sync_load_loop env s n mv idxs (h @ Sync_load_replica env s n mv i h))"
    by (auto simp: Let_def)
  then show ?case
  proof cases
    case hd
    from Sync_load_replica_send [OF hd] show ?thesis by auto
  next
    case tl
    from Cons.IH [OF tl] show ?thesis by auto
  qed
qed

lemma Sync_unload_loop_send:
  "StreamSend k strm m r \<in> set (Sync_unload_loop env s n mv idxs h) \<Longrightarrow>
     \<exists>i\<in>set idxs. k = \<lparr>serverName = Server mv, replicaIdx = word_of_int i\<rparr> \<and>
       (\<exists>as. agents s k = Some as \<and> strm = stream as) \<and>
       m = \<lparr>Operation = UNLOAD_MODEL, ModelVersion = \<lparr>Model = GetModel mv, Version = GetVersion mv\<rparr>\<rparr>"
proof (induction idxs arbitrary: h)
  case Nil
  then show ?case by simp
next
  case (Cons i idxs)
  from Cons.prems consider
      (hd) "StreamSend k strm m r \<in> set (Sync_unload_replica env s n mv i h)"
    | (tl) "StreamSend k strm m r \<in>
              set (Sync_unload_loop env s n mv idxs (h @ Sync_unload_replica env s n mv i h))"
    by (auto simp: Let_def)
  then show ?case
  proof cases
    case hd
    from Sync_unload_replica_send [OF hd] show ?thesis by auto
  next
    case tl
    from Cons.IH [OF tl] show ?thesis by auto
  qed
qed

lemma Sync_versions_loop_send:
  "StreamSend k strm m r \<in> set (Sync_versions_loop env s n vs h) \<Longrightarrow>
     \<exists>mv\<in>set vs. \<exists>i\<in>set (GetReplicaForState mv UnloadRequested).
       k = \<lparr>serverName = Server mv, replicaIdx = word_of_int i\<rparr> \<and>
       (\<exists>as. agents s k = Some as \<and> strm = stream as) \<and>
       m = \<lparr>Operation = UNLOAD_MODEL, ModelVersion = \<lparr>Model = GetModel mv, Version = GetVersion mv\<rparr>\<rparr>"
proof (induction vs arbitrary: h)
  case Nil
  then show ?case by simp
next
  case (Cons mv vs)
  let ?t = "Sync_unload_loop env s n mv (GetReplicaForState mv UnloadRequested) h"
  from Cons.prems consider
      (hd) "StreamSend k strm m r \<in> set ?t"
    | (tl) "StreamSend k strm m r \<in> set (Sync_versions_loop env s n vs (h @ ?t))"
    by (auto simp: Let_def)
  then show ?case
  proof cases
    case hd
    from Sync_unload_loop_send [OF hd] show ?thesis by auto
  next
    case tl
    from Cons.IH [OF tl] show ?thesis by auto
  qed
qed

lemma Sync_load_loop_send_ex:
  "i \<in> set idxs \<Longrightarrow>
   agents s \<lparr>serverName = Server mv, replicaIdx = word_of_int i\<rparr> = Some as \<Longrightarrow>
     \<exists>r. StreamSend \<lparr>serverName = Server mv, replicaIdx = word_of_int i\<rparr> (stream as)
            \<lparr>Operation = LOAD_MODEL, ModelVersion = \<lparr>Model = GetModel mv, Version = GetVersion mv\<rparr>\<rparr> r
          \<in> set (Sync_load_loop env s n mv idxs h)"
proof (induction idxs arbitrary: h)
  case Nil
  then show ?case by simp
next
  case (Cons j idxs)
  show ?case
  proof (cases "i = j")
    case True
    with Sync_load_replica_send_ex [OF Cons.prems(2), of env n h] show ?thesis
      by (auto simp: Let_def)
  next
    case False
    with Cons.prems have "i \<in> set idxs" by simp
    from Cons.IH [OF this Cons.prems(2)] show ?thesis
      by (auto simp: Let_def)
  qed
qed

lemma Sync_unload_loop_send_ex:
  "i \<in> set idxs \<Longrightarrow>
   agents s \<lparr>serverName = Server mv, replicaIdx = word_of_int i\<rparr> = Some as \<Longrightarrow>
     \<exists>r. StreamSend \<lparr>serverName = Server mv, replicaIdx = word_of_int i\<rparr> (stream as)
            \<lparr>Operation = UNLOAD_MODEL, ModelVersion = \<lparr>Model = GetModel mv, Version = GetVersion mv\<rparr>\<rparr> r
          \<in> set (Sync_unload_loop env s n mv idxs h)"
proof (induction idxs arbitrary: h)
  case Nil
  then show ?case by simp
next
  case (Cons j idxs)
  show ?case
  proof (cases "i = j")
    case True
    with Sync_unload_replica_send_ex [OF Cons.prems(2), of env n h] show ?thesis
      by (auto simp: Let_def)
  next
    case False
    with Cons.prems have "i \<in> set idxs" by simp
    from Cons.IH [OF this Cons.prems(2)] show ?thesis
      by (auto simp: Let_def)
  qed
qed

lemma Sync_versions_loop_send_ex:
  "mv \<in> set vs \<Longrightarrow> i \<in> set (GetReplicaForState mv UnloadRequested) \<Longrightarrow>
   agents s \<lparr>serverName = Server mv, replicaIdx = word_of_int i\<rparr> = Some as \<Longrightarrow>
     \<exists>r. StreamSend \<lparr>serverName = Server mv, replicaIdx = word_of_int i\<rparr> (stream as)
            \<lparr>Operation = UNLOAD_MODEL, ModelVersion = \<lparr>Model = GetModel mv, Version = GetVersion mv\<rparr>\<rparr> r
          \<in> set (Sync_versions_loop env s n vs h)"
proof (induction vs arbitrary: h)
  case Nil
  then show ?case by simp
next
  case (Cons v vs)
  show ?case
  proof (cases "mv = v")
    case True
    with Sync_unload_loop_send_ex [OF Cons.prems(2,3), of env n h] show ?thesis
      by (auto simp: Let_def)
  next
    case False
    with Cons.prems have "mv \<in> set vs" by simp
    from Cons.IH [OF this Cons.prems(2,3)] show ?thesis
      by (auto simp: Let_def)
  qed
qed

lemma Sync_load_loop_update:
  "StoreUpdateModelState key v srv j mem st msg r \<in> set (Sync_load_loop env s n mv idxs h) \<Longrightarrow>
     st = Loading \<and> agents s \<lparr>serverName = srv, replicaIdx = word_of_int j\<rparr> \<noteq> None"
proof (induction idxs arbitrary: h)
  case Nil
  then show ?case by simp
next
  case (Cons i idxs)
  from Cons.prems consider
      (hd) "StoreUpdateModelState key v srv j mem st msg r \<in> set (Sync_load_replica env s n mv i h)"
    | (tl) "StoreUpdateModelState key v srv j mem st msg r \<in>
              set (Sync_load_loop env s n mv idxs (h @ Sync_load_replica env s n mv i h))"
    by (auto simp: Let_def)
  then show ?case
  proof cases
    case hd
    from Sync_load_replica_update [OF hd] show ?thesis by auto
  next
    case tl
    from Cons.IH [OF tl] show ?thesis .
  qed
qed

lemma Sync_unload_loop_update:
  "StoreUpdateModelState key v srv j mem st msg r \<in> set (Sync_unload_loop env s n mv idxs h) \<Longrightarrow>
     st = Unloading \<and> agents s \<lparr>serverName = srv, replicaIdx = word_of_int j\<rparr> \<noteq> None"
proof (induction idxs arbitrary: h)
  case Nil
  then show ?case by simp
next
  case (Cons i idxs)
  from Cons.prems consider
      (hd) "StoreUpdateModelState key v srv j mem st msg r \<in> set (Sync_unload_replica env s n mv i h)"
    | (tl) "StoreUpdateModelState key v srv j mem st msg r \<in>
              set (Sync_unload_loop env s n mv idxs (h @ Sync_unload_replica env s n mv i h))"
    by (auto simp: Let_def)
  then show ?case
  proof cases
    case hd
    from Sync_unload_replica_update [OF hd] show ?thesis by auto
  next
    case tl
    from Cons.IH [OF tl] show ?thesis .
  qed
qed

lemma Sync_versions_loop_update:
  "StoreUpdateModelState key v srv j mem st msg r \<in> set (Sync_versions_loop env s n vs h) \<Longrightarrow>
     st = Unloading \<and> agents s \<lparr>serverName = srv, replicaIdx = word_of_int j\<rparr> \<noteq> None"
proof (induction vs arbitrary: h)
  case Nil
  then show ?case by simp
next
  case (Cons mv vs)
  let ?t = "Sync_unload_loop env s n mv (GetReplicaForState mv UnloadRequested) h"
  from Cons.prems consider
      (hd) "StoreUpdateModelState key v srv j mem st msg r \<in> set ?t"
    | (tl) "StoreUpdateModelState key v srv j mem st msg r \<in> set (Sync_versions_loop env s n vs (h @ ?t))"
    by (auto simp: Let_def)
  then show ?case
  proof cases
    case hd
    from Sync_unload_loop_update [OF hd] show ?thesis .
  next
    case tl
    from Cons.IH [OF tl] show ?thesis .
  qed
qed

text \<open>The events of a pass, by the answer of the store to GetModel.\<close>

lemma Sync_events:
  "e \<in> set (Sync env s n h) \<Longrightarrow>
     is_StoreGetModel e \<or> is_Log e \<or>
     (\<exists>model latest. GetModel_result env h n = (Some model, None) \<and> GetLatest model = Some latest \<and>
        e \<in> set (Sync_load_loop env s n latest (GetReplicaForState latest LoadRequested)
                   (h @ [StoreGetModel n None]))) \<or>
     (\<exists>model h'. GetModel_result env h n = (Some model, None) \<and>
        e \<in> set (Sync_versions_loop env s n (Versions model) h'))"
  by (cases "GetModel_result env h n")
     (auto simp: Sync_def Let_def split: option.splits)

lemma Sync_update:
  assumes "StoreUpdateModelState key v srv j mem st msg r \<in> set (Sync env s n h)"
  shows "(st = Loading \<or> st = Unloading) \<and>
         agents s \<lparr>serverName = srv, replicaIdx = word_of_int j\<rparr> \<noteq> None"
  using Sync_events [OF assms] Sync_load_loop_update Sync_versions_loop_update
  by fastforce

lemma Sync_send_registered:
  assumes "StreamSend k strm m r \<in> set (Sync env s n h)"
  shows "\<exists>as. agents s k = Some as \<and> strm = stream as"
  using Sync_events [OF assms] Sync_load_loop_send Sync_versions_loop_send
  by fastforce

subsection \<open>The example pass\<close>

lemma Sync_example:
  "Sync example_env example_server ''iris'' [] =
    [StoreGetModel ''iris'' None,
     Log LogInfo ''Sending load model request for %s'',
     StreamSend \<lparr>serverName = ''serverA'', replicaIdx = 0\<rparr> 10
       \<lparr>Operation = LOAD_MODEL, ModelVersion = \<lparr>Model = ''iris'', Version = 2\<rparr>\<rparr> None,
     StoreUpdateModelState ''iris'' 2 ''serverA'' 0 None Loading '''' None,
     Log LogInfo ''Sending load model request for %s'',
     StreamSend \<lparr>serverName = ''serverA'', replicaIdx = 1\<rparr> 11
       \<lparr>Operation = LOAD_MODEL, ModelVersion = \<lparr>Model = ''iris'', Version = 2\<rparr>\<rparr> (Some (GoError ''EOF'')),
     Log LogError ''stream message send failed for model %s and replicaidx %d'',
     Log LogInfo ''Sending load model request for %s'',
     Log LogError ''Failed to find server replica for %s:%d'',
     Log LogInfo ''Sending unload model request for %s'',
     StreamSend \<lparr>serverName = ''serverA'', replicaIdx = 0\<rparr> 10
       \<lparr>Operation = UNLOAD_MODEL, ModelVersion = \<lparr>Model = ''iris'', Version = 1\<rparr>\<rparr> None,
     StoreUpdateModelState ''iris'' 1 ''serverA'' 0 None Unloading '''' None]"
  by (simp add: Sync_def Let_def Sync_load_replica_def Sync_unload_replica_def
        example_env_def example_server_def example_model_def example_latest_def example_old_def)

lemma example_agents:
  "agents example_server \<lparr>serverName = ''serverA'', replicaIdx = word_of_int 2\<rparr> = None"
  "agents example_server \<lparr>serverName = ''serverA'', replicaIdx = word_of_int 0\<rparr> =
     Some \<lparr>finished = 20, stream = 10\<rparr>"
  by (simp_all add: example_server_def)

lemma Sync_found:
  assumes "GetModel_result env h n = (Some model, None)"
  shows "set (Sync env s n h) =
    {StoreGetModel n None} \<union>
    (case GetLatest model of
       None \<Rightarrow> {}
     | Some latest \<Rightarrow>
         set (Sync_load_loop env s n latest (GetReplicaForState latest LoadRequested)
                (h @ [StoreGetModel n None]))) \<union>
    set (Sync_versions_loop env s n (Versions model)
           (h @ [StoreGetModel n None] @
              (case GetLatest model of
                 None \<Rightarrow> []
               | Some latest \<Rightarrow>
                   Sync_load_loop env s n latest (GetReplicaForState latest LoadRequested)
                     (h @ [StoreGetModel n None]))))"
  using assms by (simp add: Sync_def Let_def split: option.splits)

lemma example_GetModel: "GetModel_result example_env [] ''iris'' = (Some example_model, None)"
  by (simp add: example_env_def)

subsection \<open>Claims about Sync\<close>

text \<open>
  Claim C1. In a pass of \<open>Sync\<close>, the store's \<open>UpdateModelState\<close> is called only with the
  state \<open>Loading\<close> or \<open>Unloading\<close>, and only right after the send of the matching command
  (load for \<open>Loading\<close>, unload for \<open>Unloading\<close>) to the same replica, for the same version,
  has returned without error. A send that fails is followed by its error line and by no state
  update: the pass goes on to the next replica, so the replica stays in \<open>LoadRequested\<close>
  (or \<open>UnloadRequested\<close>).
\<close>

theorem Sync_update_only_after_successful_send:
  "(\<forall>k<length (Sync env s modelName h). \<forall>key v srv i mem st msg r.
      Sync env s modelName h ! k = StoreUpdateModelState key v srv i mem st msg r \<longrightarrow>
        (st = Loading \<or> st = Unloading) \<and> 0 < k \<and>
        (\<exists>strm m. Sync env s modelName h ! (k - 1) =
                     StreamSend \<lparr>serverName = srv, replicaIdx = word_of_int i\<rparr> strm m None \<and>
           Operation m = (if st = Loading then LOAD_MODEL else UNLOAD_MODEL) \<and>
           Version (ModelVersion m) = v)) \<and>
   (\<forall>k<length (Sync env s modelName h). \<forall>key strm m e.
      Sync env s modelName h ! k = StreamSend key strm m (Some e) \<longrightarrow>
        Suc k < length (Sync env s modelName h) \<and>
        Sync env s modelName h ! Suc k =
          Log LogError ''stream message send failed for model %s and replicaidx %d'')"
  using Sync_is_ordered [of env s modelName h] unfolding Sync_ordered_def .

theorem Sync_update_only_after_successful_send_witness:
  "Sync example_env example_server ''iris'' [] ! 5 =
     StreamSend \<lparr>serverName = ''serverA'', replicaIdx = 1\<rparr> 11
       \<lparr>Operation = LOAD_MODEL, ModelVersion = \<lparr>Model = ''iris'', Version = 2\<rparr>\<rparr> (Some (GoError ''EOF'')) \<and>
   Sync example_env example_server ''iris'' [] ! 6 =
     Log LogError ''stream message send failed for model %s and replicaidx %d'' \<and>
   Sync example_env example_server ''iris'' [] ! 3 =
     StoreUpdateModelState ''iris'' 2 ''serverA'' 0 None Loading '''' None \<and>
   (\<exists>strm m. Sync example_env example_server ''iris'' [] ! (3 - 1) =
      StreamSend \<lparr>serverName = ''serverA'', replicaIdx = word_of_int 0\<rparr> strm m None \<and>
      Operation m = LOAD_MODEL \<and> Version (ModelVersion m) = 2)"
proof -
  let ?t = "Sync example_env example_server ''iris'' []"
  have len: "length ?t = 12" by (simp add: Sync_example)
  have f: "?t ! 5 = StreamSend \<lparr>serverName = ''serverA'', replicaIdx = 1\<rparr> 11
       \<lparr>Operation = LOAD_MODEL, ModelVersion = \<lparr>Model = ''iris'', Version = 2\<rparr>\<rparr> (Some (GoError ''EOF''))"
    by (simp add: Sync_example)
  have u: "?t ! 3 = StoreUpdateModelState ''iris'' 2 ''serverA'' 0 None Loading '''' None"
    by (simp add: Sync_example)
  note inst = Sync_update_only_after_successful_send [of example_env example_server "''iris''" "[]"]
  have l5: "5 < length ?t" and l3: "3 < length ?t" by (simp_all add: len)
  from inst [THEN conjunct2, rule_format, OF l5 f]
  have "?t ! Suc 5 = Log LogError ''stream message send failed for model %s and replicaidx %d''"
    by simp
  moreover from inst [THEN conjunct1, rule_format, OF l3 u]
  have "\<exists>strm m. ?t ! (3 - 1) =
      StreamSend \<lparr>serverName = ''serverA'', replicaIdx = word_of_int 0\<rparr> strm m None \<and>
      Operation m = LOAD_MODEL \<and> Version (ModelVersion m) = 2"
    by simp
  ultimately show ?thesis using f u by simp
qed

text \<open>
  Claim C7. For a replica (server name and index) whose key is not in the registry, a pass of
  \<open>Sync\<close> sends no command under that key and calls \<open>UpdateModelState\<close> for no version of
  the model on that replica: its state is left as it is, for a later pass. This holds for every
  replica that is not connected, so for those in \<open>LoadRequested\<close> or \<open>UnloadRequested\<close>.
\<close>

theorem Sync_skips_unconnected_replica:
  assumes "agents s \<lparr>serverName = srv, replicaIdx = word_of_int i\<rparr> = None"
  shows "(\<forall>strm m r. StreamSend \<lparr>serverName = srv, replicaIdx = word_of_int i\<rparr> strm m r
            \<notin> set (Sync env s modelName h)) \<and>
         (\<forall>key v mem st msg r. StoreUpdateModelState key v srv i mem st msg r
            \<notin> set (Sync env s modelName h))"
  using assms Sync_update Sync_send_registered by fastforce

theorem Sync_skips_unconnected_replica_witness:
  "agents example_server \<lparr>serverName = ''serverA'', replicaIdx = word_of_int 2\<rparr> = None \<and>
   2 \<in> set (GetReplicaForState example_latest LoadRequested) \<and>
   (\<forall>strm m r. StreamSend \<lparr>serverName = ''serverA'', replicaIdx = word_of_int 2\<rparr> strm m r
      \<notin> set (Sync example_env example_server ''iris'' [])) \<and>
   (\<forall>key v mem st msg r. StoreUpdateModelState key v ''serverA'' 2 mem st msg r
      \<notin> set (Sync example_env example_server ''iris'' []))"
  using Sync_skips_unconnected_replica [OF example_agents(1), of example_env "''iris''" "[]"]
    example_agents(1)
  by (simp add: example_latest_def)

text \<open>
  Claim C3. When the store returns the model, the load commands of a pass of \<open>Sync\<close> go only
  to replicas that \<open>GetReplicaForState\<close> gives as \<open>LoadRequested\<close> for the version that
  \<open>GetLatest\<close> returns, and they carry that version; the unload commands go only to replicas
  that are \<open>UnloadRequested\<close> for some version in \<open>Versions\<close>, and carry that version. Every
  connected replica that is \<open>LoadRequested\<close> for the latest version is sent a load command,
  and every connected replica that is \<open>UnloadRequested\<close> for any version is sent an unload
  command for that version.
\<close>

theorem Sync_loads_latest_unloads_every_version:
  assumes "GetModel_result env h modelName = (Some model, None)"
  shows
    "(\<forall>k strm m r. StreamSend k strm m r \<in> set (Sync env s modelName h) \<and> Operation m = LOAD_MODEL \<longrightarrow>
        (\<exists>latest. GetLatest model = Some latest \<and>
           (\<exists>i\<in>set (GetReplicaForState latest LoadRequested).
              k = \<lparr>serverName = Server latest, replicaIdx = word_of_int i\<rparr> \<and>
              ModelVersion m = \<lparr>Model = GetModel latest, Version = GetVersion latest\<rparr>))) \<and>
     (\<forall>k strm m r. StreamSend k strm m r \<in> set (Sync env s modelName h) \<and> Operation m = UNLOAD_MODEL \<longrightarrow>
        (\<exists>mv\<in>set (Versions model). \<exists>i\<in>set (GetReplicaForState mv UnloadRequested).
           k = \<lparr>serverName = Server mv, replicaIdx = word_of_int i\<rparr> \<and>
           ModelVersion m = \<lparr>Model = GetModel mv, Version = GetVersion mv\<rparr>)) \<and>
     (\<forall>latest i as.
        GetLatest model = Some latest \<and> i \<in> set (GetReplicaForState latest LoadRequested) \<and>
        agents s \<lparr>serverName = Server latest, replicaIdx = word_of_int i\<rparr> = Some as \<longrightarrow>
        (\<exists>r. StreamSend \<lparr>serverName = Server latest, replicaIdx = word_of_int i\<rparr> (stream as)
                \<lparr>Operation = LOAD_MODEL,
                 ModelVersion = \<lparr>Model = GetModel latest, Version = GetVersion latest\<rparr>\<rparr> r
              \<in> set (Sync env s modelName h))) \<and>
     (\<forall>mv i as.
        mv \<in> set (Versions model) \<and> i \<in> set (GetReplicaForState mv UnloadRequested) \<and>
        agents s \<lparr>serverName = Server mv, replicaIdx = word_of_int i\<rparr> = Some as \<longrightarrow>
        (\<exists>r. StreamSend \<lparr>serverName = Server mv, replicaIdx = word_of_int i\<rparr> (stream as)
                \<lparr>Operation = UNLOAD_MODEL,
                 ModelVersion = \<lparr>Model = GetModel mv, Version = GetVersion mv\<rparr>\<rparr> r
              \<in> set (Sync env s modelName h)))"
proof (intro conjI allI impI)
  fix k strm m r
  assume a: "StreamSend k strm m r \<in> set (Sync env s modelName h) \<and> Operation m = LOAD_MODEL"
  then consider
      (load) latest where "GetLatest model = Some latest"
        "StreamSend k strm m r \<in> set (Sync_load_loop env s modelName latest
           (GetReplicaForState latest LoadRequested) (h @ [StoreGetModel modelName None]))"
    | (unload) h' where
        "StreamSend k strm m r \<in> set (Sync_versions_loop env s modelName (Versions model) h')"
    unfolding Sync_found [OF assms] by (auto split: option.splits)
  then show "\<exists>latest. GetLatest model = Some latest \<and>
           (\<exists>i\<in>set (GetReplicaForState latest LoadRequested).
              k = \<lparr>serverName = Server latest, replicaIdx = word_of_int i\<rparr> \<and>
              ModelVersion m = \<lparr>Model = GetModel latest, Version = GetVersion latest\<rparr>)"
  proof cases
    case load
    from Sync_load_loop_send [OF load(2)] load(1) show ?thesis by auto
  next
    case unload
    from Sync_versions_loop_send [OF unload] a show ?thesis by auto
  qed
next
  fix k strm m r
  assume a: "StreamSend k strm m r \<in> set (Sync env s modelName h) \<and> Operation m = UNLOAD_MODEL"
  then consider
      (load) latest where "GetLatest model = Some latest"
        "StreamSend k strm m r \<in> set (Sync_load_loop env s modelName latest
           (GetReplicaForState latest LoadRequested) (h @ [StoreGetModel modelName None]))"
    | (unload) h' where
        "StreamSend k strm m r \<in> set (Sync_versions_loop env s modelName (Versions model) h')"
    unfolding Sync_found [OF assms] by (auto split: option.splits)
  then show "\<exists>mv\<in>set (Versions model). \<exists>i\<in>set (GetReplicaForState mv UnloadRequested).
           k = \<lparr>serverName = Server mv, replicaIdx = word_of_int i\<rparr> \<and>
           ModelVersion m = \<lparr>Model = GetModel mv, Version = GetVersion mv\<rparr>"
  proof cases
    case load
    from Sync_load_loop_send [OF load(2)] a show ?thesis by auto
  next
    case unload
    from Sync_versions_loop_send [OF unload] show ?thesis by auto
  qed
next
  fix latest i as
  assume a: "GetLatest model = Some latest \<and> i \<in> set (GetReplicaForState latest LoadRequested) \<and>
        agents s \<lparr>serverName = Server latest, replicaIdx = word_of_int i\<rparr> = Some as"
  then have i: "i \<in> set (GetReplicaForState latest LoadRequested)"
    and c: "agents s \<lparr>serverName = Server latest, replicaIdx = word_of_int i\<rparr> = Some as"
    by simp_all
  from Sync_load_loop_send_ex [OF i c, of env modelName "h @ [StoreGetModel modelName None]"] a
  show "\<exists>r. StreamSend \<lparr>serverName = Server latest, replicaIdx = word_of_int i\<rparr> (stream as)
                \<lparr>Operation = LOAD_MODEL,
                 ModelVersion = \<lparr>Model = GetModel latest, Version = GetVersion latest\<rparr>\<rparr> r
              \<in> set (Sync env s modelName h)"
    unfolding Sync_found [OF assms] by auto
next
  fix mv i as
  assume a: "mv \<in> set (Versions model) \<and> i \<in> set (GetReplicaForState mv UnloadRequested) \<and>
        agents s \<lparr>serverName = Server mv, replicaIdx = word_of_int i\<rparr> = Some as"
  then have v: "mv \<in> set (Versions model)"
    and i: "i \<in> set (GetReplicaForState mv UnloadRequested)"
    and c: "agents s \<lparr>serverName = Server mv, replicaIdx = word_of_int i\<rparr> = Some as"
    by simp_all
  from Sync_versions_loop_send_ex [OF v i c]
  show "\<exists>r. StreamSend \<lparr>serverName = Server mv, replicaIdx = word_of_int i\<rparr> (stream as)
                \<lparr>Operation = UNLOAD_MODEL,
                 ModelVersion = \<lparr>Model = GetModel mv, Version = GetVersion mv\<rparr>\<rparr> r
              \<in> set (Sync env s modelName h)"
    unfolding Sync_found [OF assms] by blast
qed

theorem Sync_loads_latest_unloads_every_version_witness:
  "GetModel_result example_env [] ''iris'' = (Some example_model, None) \<and>
   example_old \<in> set (Versions example_model) \<and> GetLatest example_model = Some example_latest \<and>
   0 \<in> set (GetReplicaForState example_old UnloadRequested) \<and>
   agents example_server \<lparr>serverName = ''serverA'', replicaIdx = word_of_int 0\<rparr> =
     Some \<lparr>finished = 20, stream = 10\<rparr> \<and>
   (\<exists>r. StreamSend \<lparr>serverName = ''serverA'', replicaIdx = word_of_int 0\<rparr> 10
           \<lparr>Operation = UNLOAD_MODEL, ModelVersion = \<lparr>Model = ''iris'', Version = 1\<rparr>\<rparr> r
         \<in> set (Sync example_env example_server ''iris'' [])) \<and>
   (\<exists>r. StreamSend \<lparr>serverName = ''serverA'', replicaIdx = word_of_int 0\<rparr> 10
           \<lparr>Operation = LOAD_MODEL, ModelVersion = \<lparr>Model = ''iris'', Version = 2\<rparr>\<rparr> r
         \<in> set (Sync example_env example_server ''iris'' [])) \<and>
   (\<forall>k strm r. StreamSend k strm
           \<lparr>Operation = LOAD_MODEL, ModelVersion = \<lparr>Model = ''iris'', Version = 1\<rparr>\<rparr> r
         \<notin> set (Sync example_env example_server ''iris'' []))"
proof -
  note inst = Sync_loads_latest_unloads_every_version [OF example_GetModel, of example_server]
  have old: "example_old \<in> set (Versions example_model)"
    and latest: "GetLatest example_model = Some example_latest"
    and u: "0 \<in> set (GetReplicaForState example_old UnloadRequested)"
    and l: "0 \<in> set (GetReplicaForState example_latest LoadRequested)"
    and srv: "Server example_old = ''serverA''" "Server example_latest = ''serverA''"
    by (simp_all add: example_model_def example_old_def example_latest_def)
  have c: "agents example_server \<lparr>serverName = ''serverA'', replicaIdx = word_of_int 0\<rparr> =
     Some \<lparr>finished = 20, stream = 10\<rparr>"
    by (rule example_agents(2))
  from inst [THEN conjunct2, THEN conjunct2, THEN conjunct2, rule_format, of example_old 0]
    old u c srv
  have 1: "\<exists>r. StreamSend \<lparr>serverName = ''serverA'', replicaIdx = word_of_int 0\<rparr> 10
           \<lparr>Operation = UNLOAD_MODEL, ModelVersion = \<lparr>Model = ''iris'', Version = 1\<rparr>\<rparr> r
         \<in> set (Sync example_env example_server ''iris'' [])"
    by (simp add: example_old_def)
  from inst [THEN conjunct2, THEN conjunct2, THEN conjunct1, rule_format, of example_latest 0]
    latest l c srv
  have 2: "\<exists>r. StreamSend \<lparr>serverName = ''serverA'', replicaIdx = word_of_int 0\<rparr> 10
           \<lparr>Operation = LOAD_MODEL, ModelVersion = \<lparr>Model = ''iris'', Version = 2\<rparr>\<rparr> r
         \<in> set (Sync example_env example_server ''iris'' [])"
    by (simp add: example_latest_def)
  have 3: "\<forall>k strm r. StreamSend k strm
           \<lparr>Operation = LOAD_MODEL, ModelVersion = \<lparr>Model = ''iris'', Version = 1\<rparr>\<rparr> r
         \<notin> set (Sync example_env example_server ''iris'' [])"
  proof (intro allI notI)
    fix k strm r
    assume "StreamSend k strm
           \<lparr>Operation = LOAD_MODEL, ModelVersion = \<lparr>Model = ''iris'', Version = 1\<rparr>\<rparr> r
         \<in> set (Sync example_env example_server ''iris'' [])"
    with inst [THEN conjunct1, rule_format, of k strm
        "\<lparr>Operation = LOAD_MODEL, ModelVersion = \<lparr>Model = ''iris'', Version = 1\<rparr>\<rparr>" r] latest
    show False by (simp add: example_latest_def)
  qed
  from 1 2 3 old latest u c example_GetModel show ?thesis by blast
qed

subsection \<open>Subscribe and AgentEvent\<close>

lemma Subscribe_reschedule_events:
  "e \<in> set (Subscribe_reschedule env ms h) \<Longrightarrow> is_SchedulerSchedule e \<or> is_Log e"
  by (induction ms arbitrary: h) (auto simp: Let_def split: option.splits)

lemma Subscribe_reschedule_names:
  "[n. SchedulerSchedule n r \<leftarrow> Subscribe_reschedule env ms h] = ms"
  by (induction ms arbitrary: h) (auto simp: Let_def split: option.splits)

lemma reschedule_logged_append:
  assumes "reschedule_logged xs" and "reschedule_logged ys"
  shows "reschedule_logged (xs @ ys)"
  unfolding reschedule_logged_def
proof (intro allI impI)
  fix k n e
  assume k: "k < length (xs @ ys)" and e: "(xs @ ys) ! k = SchedulerSchedule n (Some e)"
  show "Suc k < length (xs @ ys) \<and>
        (xs @ ys) ! Suc k =
          Log LogDebug ''Failed to reschedule model %s when server %s replica %d disconnected''"
  proof (cases "k < length xs")
    case True
    then have "xs ! k = SchedulerSchedule n (Some e)" using e by (simp add: nth_append)
    with True assms(1) have "Suc k < length xs \<and> xs ! Suc k =
        Log LogDebug ''Failed to reschedule model %s when server %s replica %d disconnected''"
      unfolding reschedule_logged_def by blast
    then show ?thesis by (simp add: nth_append)
  next
    case False
    then have "ys ! (k - length xs) = SchedulerSchedule n (Some e)" and "k - length xs < length ys"
      using k e by (auto simp: nth_append)
    with assms(2) have "Suc (k - length xs) < length ys \<and> ys ! Suc (k - length xs) =
        Log LogDebug ''Failed to reschedule model %s when server %s replica %d disconnected''"
      unfolding reschedule_logged_def by blast
    moreover have "(xs @ ys) ! Suc k = ys ! Suc (k - length xs)"
      using False by (simp add: nth_append Suc_diff_le)
    ultimately show ?thesis by auto
  qed
qed

lemma reschedule_logged_others:
  assumes "\<forall>e\<in>set t. \<not> is_SchedulerSchedule e"
  shows "reschedule_logged t"
  unfolding reschedule_logged_def
proof (intro allI impI)
  fix k n e
  assume "k < length t" and "t ! k = SchedulerSchedule n (Some e)"
  then have "SchedulerSchedule n (Some e) \<in> set t" by (metis nth_mem)
  with assms show "Suc k < length t \<and>
       t ! Suc k = Log LogDebug ''Failed to reschedule model %s when server %s replica %d disconnected''"
    by auto
qed

lemma reschedule_logged_failed:
  "reschedule_logged [SchedulerSchedule n (Some e),
     Log LogDebug ''Failed to reschedule model %s when server %s replica %d disconnected'']"
  by (auto simp: reschedule_logged_def nth_Cons' less_Suc_eq)

lemma reschedule_logged_ok: "reschedule_logged [SchedulerSchedule n None]"
  by (simp add: reschedule_logged_def)

lemma Subscribe_reschedule_logged: "reschedule_logged (Subscribe_reschedule env ms h)"
proof (induction ms arbitrary: h)
  case Nil
  show ?case by (simp add: reschedule_logged_others)
next
  case (Cons m ms)
  show ?case
  proof (cases "Schedule_result env h m")
    case None
    have "reschedule_logged ([SchedulerSchedule m None] @
            Subscribe_reschedule env ms (h @ [SchedulerSchedule m None]))"
      by (rule reschedule_logged_append) (simp_all add: reschedule_logged_ok Cons.IH)
    with None show ?thesis by (simp add: Let_def)
  next
    case (Some e)
    let ?t = "[SchedulerSchedule m (Some e),
               Log LogDebug ''Failed to reschedule model %s when server %s replica %d disconnected'']"
    have "reschedule_logged (?t @ Subscribe_reschedule env ms (h @ ?t))"
      by (rule reschedule_logged_append) (simp_all add: reschedule_logged_failed Cons.IH)
    with Some show ?thesis by (simp add: Let_def)
  qed
qed

lemma syncMessage_events:
  "e \<in> set (snd (syncMessage env request strm h)) \<Longrightarrow>
     is_Log e \<or> is_StoreAddServerReplica e \<or> is_SchedulerScheduleFailedModels e"
  by (auto simp: syncMessage_def Let_def split: option.splits)

lemma Subscribe_events:
  assumes "e \<in> set (snd (snd (Subscribe env s request strm fin sig h)))"
  shows "is_Log e \<or> is_StoreAddServerReplica e \<or> is_SchedulerScheduleFailedModels e \<or>
     is_StoreRemoveServerReplica e \<or> is_SchedulerSchedule e"
proof -
  let ?t1 = "[Log LogInfo ''Received subscribe request from %s:%d'']"
  obtain err ts where sm: "syncMessage env request strm (h @ ?t1) = (err, ts)"
    by (cases "syncMessage env request strm (h @ ?t1)")
  have ts: "\<forall>e\<in>set ts. is_Log e \<or> is_StoreAddServerReplica e \<or> is_SchedulerScheduleFailedModels e"
    using syncMessage_events [of _ env request strm "h @ ?t1"] sm by simp
  from assms sm ts show ?thesis
    by (auto simp: Subscribe_def Let_def dest: Subscribe_reschedule_events
          split: option.splits Signal.splits)
qed

lemma syncMessage_succeeds_iff:
  assumes "syncMessage env request strm h = (err, ts)"
  shows "SchedulerScheduleFailedModels None \<in> set ts \<longleftrightarrow> err = None"
  using assms by (auto simp: syncMessage_def Let_def split: option.splits)

text \<open>When \<open>ScheduleFailedModels\<close> has answered without error among the events of
  \<open>Subscribe\<close>, the initial synchronisation has succeeded.\<close>

lemma Subscribe_sync_succeeded:
  assumes "Subscribe env s request strm fin sig h = (s', out, t)"
    and "SchedulerScheduleFailedModels None \<in> set t"
  shows "\<exists>ts. syncMessage env request strm
                (h @ [Log LogInfo ''Received subscribe request from %s:%d'']) = (None, ts)"
proof -
  let ?t1 = "[Log LogInfo ''Received subscribe request from %s:%d'']"
  obtain err ts where sm: "syncMessage env request strm (h @ ?t1) = (err, ts)"
    by (cases "syncMessage env request strm (h @ ?t1)")
  have "err = None"
  proof (rule ccontr)
    assume "err \<noteq> None"
    then obtain e where e: "err = Some e" by auto
    with assms(1) sm have "t = ?t1 @ ts" by (simp add: Subscribe_def Let_def)
    with assms(2) have "SchedulerScheduleFailedModels None \<in> set ts" by simp
    with syncMessage_succeeds_iff [OF sm] e show False by simp
  qed
  with sm show ?thesis by blast
qed

lemma Subscribe_example_remove_fails:
  "Subscribe example_env_remove_fails example_server example_request 10 20 CtxDone [] =
    (example_server\<lparr>agents := (agents example_server)
       (\<lparr>serverName = ''serverA'', replicaIdx = 0\<rparr> := None)\<rparr>,
     Returned None,
     [Log LogInfo ''Received subscribe request from %s:%d'',
      Log LogDebug ''Add Server Replica %+v with config %+v'',
      StoreAddServerReplica example_request None,
      SchedulerScheduleFailedModels None,
      Log LogInfo ''Client replica %s:%d has disconnected'',
      StoreRemoveServerReplica ''serverA'' 0 [''iris''] (Some (GoError ''replica not found'')),
      Log LogError ''Failed to remove replica and redeploy models for %s:%d'',
      Log LogDebug ''Models changed by disconnect %v'',
      SchedulerSchedule ''iris'' (Some (GoError ''no capacity'')),
      Log LogDebug ''Failed to reschedule model %s when server %s replica %d disconnected''])"
  by (simp add: Subscribe_def syncMessage_def Let_def example_env_remove_fails_def example_env_def
        example_request_def)

lemma Subscribe_example_disconnect:
  "Subscribe example_env \<lparr>agents = Map.empty\<rparr> example_request 10 20 CtxDone [] =
    (\<lparr>agents = Map.empty\<rparr>, Returned None,
     [Log LogInfo ''Received subscribe request from %s:%d'',
      Log LogDebug ''Add Server Replica %+v with config %+v'',
      StoreAddServerReplica example_request None,
      SchedulerScheduleFailedModels None,
      Log LogInfo ''Client replica %s:%d has disconnected'',
      StoreRemoveServerReplica ''serverA'' 0 [''iris'', ''wine''] None,
      Log LogDebug ''Models changed by disconnect %v'',
      SchedulerSchedule ''iris'' (Some (GoError ''no capacity'')),
      Log LogDebug ''Failed to reschedule model %s when server %s replica %d disconnected'',
      SchedulerSchedule ''wine'' None])"
  by (simp add: Subscribe_def syncMessage_def Let_def example_env_def example_request_def)

text \<open>
  Claim C2. The states that \<open>Sync\<close> writes to the store are \<open>Loading\<close> and \<open>Unloading\<close> only.
  \<open>AgentEvent\<close> writes the state its report stands for, which is \<open>Loaded\<close>, \<open>Unloaded\<close>,
  \<open>LoadFailed\<close> or \<open>ModelReplicaStateUnknown\<close>, and it always writes it. \<open>Subscribe\<close> writes
  no state. So the two sets of states are disjoint, and \<open>Loaded\<close>, \<open>Unloaded\<close> and
  \<open>LoadFailed\<close> are written by \<open>AgentEvent\<close> alone.
\<close>

theorem Sync_and_AgentEvent_write_disjoint_states:
  "(\<forall>key v srv i mem st msg r.
      StoreUpdateModelState key v srv i mem st msg r \<in> set (Sync env s modelName h) \<longrightarrow>
        st = Loading \<or> st = Unloading) \<and>
   (\<forall>key v srv i mem st msg r.
      StoreUpdateModelState key v srv i mem st msg r \<in> set (snd (AgentEvent env' message h')) \<longrightarrow>
        st = AgentEvent_state (msg_Event message) \<and>
        (st = Loaded \<or> st = Unloaded \<or> st = LoadFailed \<or> st = ModelReplicaStateUnknown)) \<and>
   (\<exists>r. StoreUpdateModelState (msg_ModelName message) (msg_ModelVersion message)
           (msg_ServerName message) (uint (msg_ReplicaIdx message))
           (Some (msg_AvailableMemoryBytes message)) (AgentEvent_state (msg_Event message))
           (msg_Message message) r
         \<in> set (snd (AgentEvent env' message h'))) \<and>
   (\<forall>e \<in> set (snd (snd (Subscribe env'' s'' request strm fin sig h''))). \<not> is_StoreUpdateModelState e)"
proof (intro conjI allI impI ballI)
  fix key v srv i mem st msg r
  assume "StoreUpdateModelState key v srv i mem st msg r \<in> set (Sync env s modelName h)"
  from Sync_update [OF this] show "st = Loading \<or> st = Unloading" by simp
next
  fix key v srv i mem st msg r
  assume a: "StoreUpdateModelState key v srv i mem st msg r \<in> set (snd (AgentEvent env' message h'))"
  then show "st = AgentEvent_state (msg_Event message)"
    by (auto simp: AgentEvent_def Let_def split: option.splits)
  then show "st = Loaded \<or> st = Unloaded \<or> st = LoadFailed \<or> st = ModelReplicaStateUnknown"
    by (cases "msg_Event message") simp_all
next
  show "\<exists>r. StoreUpdateModelState (msg_ModelName message) (msg_ModelVersion message)
           (msg_ServerName message) (uint (msg_ReplicaIdx message))
           (Some (msg_AvailableMemoryBytes message)) (AgentEvent_state (msg_Event message))
           (msg_Message message) r
         \<in> set (snd (AgentEvent env' message h'))"
    by (auto simp: AgentEvent_def Let_def split: option.splits)
next
  fix e
  assume "e \<in> set (snd (snd (Subscribe env'' s'' request strm fin sig h'')))"
  from Subscribe_events [OF this] show "\<not> is_StoreUpdateModelState e"
    by (cases e) simp_all
qed

theorem Sync_and_AgentEvent_write_disjoint_states_witness:
  "StoreUpdateModelState ''iris'' 2 ''serverA'' 0 None Loading [] None
     \<in> set (Sync example_env example_server ''iris'' []) \<and>
   StoreUpdateModelState ''iris'' 1 ''serverA'' 0 None Unloading [] None
     \<in> set (Sync example_env example_server ''iris'' []) \<and>
   (\<forall>key v srv i mem msg r. StoreUpdateModelState key v srv i mem Loaded msg r
     \<notin> set (Sync example_env example_server ''iris'' [])) \<and>
   StoreUpdateModelState ''iris'' 2 ''serverA'' 0 (Some 1000) Loaded [] None
     \<in> set (snd (AgentEvent example_env example_report [])) \<and>
   (\<forall>key v srv i mem msg r. StoreUpdateModelState key v srv i mem Loading msg r
     \<notin> set (snd (AgentEvent example_env example_report []))) \<and>
   (\<forall>key v srv i mem st msg r. StoreUpdateModelState key v srv i mem st msg r
     \<notin> set (snd (snd (Subscribe example_env \<lparr>agents = Map.empty\<rparr> example_request 10 20 CtxDone []))))"
proof -
  note inst = Sync_and_AgentEvent_write_disjoint_states
    [of example_env example_server "''iris''" "[]" example_env example_report "[]"
        example_env "\<lparr>agents = Map.empty\<rparr>" example_request 10 20 CtxDone "[]"]
  have 1: "\<forall>key v srv i mem msg r. StoreUpdateModelState key v srv i mem Loaded msg r
     \<notin> set (Sync example_env example_server ''iris'' [])"
    using inst [THEN conjunct1] by fastforce
  have 2: "\<forall>key v srv i mem msg r. StoreUpdateModelState key v srv i mem Loading msg r
     \<notin> set (snd (AgentEvent example_env example_report []))"
    using inst [THEN conjunct2, THEN conjunct1] by (fastforce simp: example_report_def)
  have 3: "\<forall>key v srv i mem st msg r. StoreUpdateModelState key v srv i mem st msg r
     \<notin> set (snd (snd (Subscribe example_env \<lparr>agents = Map.empty\<rparr> example_request 10 20 CtxDone [])))"
    using inst [THEN conjunct2, THEN conjunct2, THEN conjunct2] by fastforce
  have 4: "StoreUpdateModelState ''iris'' 2 ''serverA'' 0 (Some 1000) Loaded [] None
     \<in> set (snd (AgentEvent example_env example_report []))"
    by (simp add: AgentEvent_def Let_def example_env_def example_report_def)
  from 1 2 3 4 show ?thesis by (simp add: Sync_example)
qed

text \<open>
  Claim C4. When the initial synchronisation has succeeded (\<open>AddServerReplica\<close> and
  \<open>ScheduleFailedModels\<close> have answered without error) and the stream's context ends,
  \<open>Subscribe\<close> returns \<open>nil\<close>, whatever the store and the scheduler answer afterwards, with
  the replica's key removed from the registry (the other entries are kept); it calls
  \<open>RemoveServerReplica\<close> once, for the server name and the replica index of the request, and
  it calls \<open>Schedule\<close> once for each model name of the list that call returned, in the order
  of the list, whatever the earlier calls of \<open>Schedule\<close> answered. A call of \<open>Schedule\<close>
  that fails is followed by its log line.
\<close>

theorem Subscribe_disconnect_reschedules:
  assumes "Subscribe env s request strm fin CtxDone h = (s', out, t)"
    and "StoreAddServerReplica request None \<in> set t"
    and "SchedulerScheduleFailedModels None \<in> set t"
  shows "out = Returned None \<and>
         agents s' =
           (agents s)(\<lparr>serverName = req_ServerName request, replicaIdx = req_ReplicaIdx request\<rparr> := None) \<and>
         (\<exists>modelsChanged err.
            [(srv, i, ms, e). StoreRemoveServerReplica srv i ms e \<leftarrow> t] =
              [(req_ServerName request, uint (req_ReplicaIdx request), modelsChanged, err)] \<and>
            [n. SchedulerSchedule n r \<leftarrow> t] = modelsChanged) \<and>
         (\<forall>k<length t. \<forall>n e. t ! k = SchedulerSchedule n (Some e) \<longrightarrow>
            Suc k < length t \<and>
            t ! Suc k =
              Log LogDebug ''Failed to reschedule model %s when server %s replica %d disconnected'')"
proof -
  let ?t1 = "[Log LogInfo ''Received subscribe request from %s:%d'']"
  let ?k = "\<lparr>serverName = req_ServerName request, replicaIdx = req_ReplicaIdx request\<rparr>"
  from Subscribe_sync_succeeded [OF assms(1,3)]
  obtain ts where sm: "syncMessage env request strm (h @ ?t1) = (None, ts)" by blast
  define t3 where "t3 = ?t1 @ ts @ [Log LogInfo ''Client replica %s:%d has disconnected'']"
  define res where "res = RemoveServerReplica_result env (h @ t3) (req_ServerName request)
                            (uint (req_ReplicaIdx request))"
  define t5 where "t5 = t3 @ [StoreRemoveServerReplica (req_ServerName request)
                                 (uint (req_ReplicaIdx request)) (fst res) (snd res)]
                           @ (case snd res of
                                Some e \<Rightarrow> [Log LogError ''Failed to remove replica and redeploy models for %s:%d'']
                              | None \<Rightarrow> [])
                           @ [Log LogDebug ''Models changed by disconnect %v'']"
  from assms(1) sm have s': "s' = s\<lparr>agents := (agents s)(?k := None)\<rparr>"
    and out: "out = Returned None"
    and t: "t = t5 @ Subscribe_reschedule env (fst res) (h @ t5)"
    by (simp_all add: Subscribe_def Let_def t3_def res_def t5_def)
  have ts: "\<forall>e\<in>set ts. is_Log e \<or> is_StoreAddServerReplica e \<or> is_SchedulerScheduleFailedModels e"
    using syncMessage_events [of _ env request strm "h @ ?t1"] sm by simp
  have t5_sched: "\<forall>e\<in>set t5. \<not> is_SchedulerSchedule e"
    using ts by (auto simp: t5_def t3_def split: option.splits)
  have ts_rm: "[(srv, i, ms, e). StoreRemoveServerReplica srv i ms e \<leftarrow> ts] = []"
    and ts_sc: "[n. SchedulerSchedule n r \<leftarrow> ts] = []"
    using sm by (auto simp: syncMessage_def Let_def split: option.splits)
  have rs_rm: "[(srv, i, ms, e). StoreRemoveServerReplica srv i ms e \<leftarrow> Subscribe_reschedule env ms' h'] = []"
    for ms' h'
    by (induction ms' arbitrary: h') (auto simp: Let_def split: option.splits)
  have 1: "agents s' = (agents s)(?k := None)" using s' by simp
  have 2: "[(srv, i, ms, e). StoreRemoveServerReplica srv i ms e \<leftarrow> t] =
              [(req_ServerName request, uint (req_ReplicaIdx request), fst res, snd res)]"
    by (simp add: ts_rm rs_rm t t5_def t3_def split: option.splits)
  have 3: "[n. SchedulerSchedule n r \<leftarrow> t] = fst res"
    by (simp add: ts_sc t t5_def t3_def Subscribe_reschedule_names split: option.splits)
  have "reschedule_logged t"
    unfolding t
    by (rule reschedule_logged_append)
       (simp_all add: reschedule_logged_others t5_sched Subscribe_reschedule_logged)
  then have 4: "\<forall>k<length t. \<forall>n e. t ! k = SchedulerSchedule n (Some e) \<longrightarrow>
            Suc k < length t \<and>
            t ! Suc k =
              Log LogDebug ''Failed to reschedule model %s when server %s replica %d disconnected''"
    unfolding reschedule_logged_def .
  from out 1 2 3 4 show ?thesis by blast
qed

theorem Subscribe_disconnect_reschedules_witness:
  "StoreAddServerReplica example_request None
     \<in> set (snd (snd (Subscribe example_env \<lparr>agents = Map.empty\<rparr> example_request 10 20 CtxDone []))) \<and>
   SchedulerScheduleFailedModels None
     \<in> set (snd (snd (Subscribe example_env \<lparr>agents = Map.empty\<rparr> example_request 10 20 CtxDone []))) \<and>
   fst (snd (Subscribe example_env \<lparr>agents = Map.empty\<rparr> example_request 10 20 CtxDone [])) =
     Returned None \<and>
   agents (fst (Subscribe example_env \<lparr>agents = Map.empty\<rparr> example_request 10 20 CtxDone [])) =
     Map.empty \<and>
   [n. SchedulerSchedule n r \<leftarrow>
      snd (snd (Subscribe example_env \<lparr>agents = Map.empty\<rparr> example_request 10 20 CtxDone []))] =
     [''iris'', ''wine''] \<and>
   snd (snd (Subscribe example_env \<lparr>agents = Map.empty\<rparr> example_request 10 20 CtxDone [])) ! 7 =
     SchedulerSchedule ''iris'' (Some (GoError ''no capacity'')) \<and>
   snd (snd (Subscribe example_env \<lparr>agents = Map.empty\<rparr> example_request 10 20 CtxDone [])) ! Suc 7 =
     Log LogDebug ''Failed to reschedule model %s when server %s replica %d disconnected''"
proof -
  let ?S = "Subscribe example_env \<lparr>agents = Map.empty\<rparr> example_request 10 20 CtxDone []"
  have run: "?S = (fst ?S, fst (snd ?S), snd (snd ?S))" by simp
  have a: "StoreAddServerReplica example_request None \<in> set (snd (snd ?S))"
    and b: "SchedulerScheduleFailedModels None \<in> set (snd (snd ?S))"
    by (simp_all add: Subscribe_example_disconnect)
  note inst = Subscribe_disconnect_reschedules [OF run a b]
  have l: "7 < length (snd (snd ?S))"
    and e: "snd (snd ?S) ! 7 = SchedulerSchedule ''iris'' (Some (GoError ''no capacity''))"
    by (simp_all add: Subscribe_example_disconnect)
  from inst [THEN conjunct1] have 0: "fst (snd ?S) = Returned None" .
  from inst [THEN conjunct2, THEN conjunct1]
  have 1: "agents (fst ?S) = Map.empty" by simp
  from inst [THEN conjunct2, THEN conjunct2, THEN conjunct2, rule_format, OF l e]
  have 2: "snd (snd ?S) ! Suc 7 =
     Log LogDebug ''Failed to reschedule model %s when server %s replica %d disconnected''"
    by simp
  from inst [THEN conjunct2, THEN conjunct2, THEN conjunct1]
  have 3: "[n. SchedulerSchedule n r \<leftarrow> snd (snd ?S)] = [''iris'', ''wine'']"
    by (simp add: Subscribe_example_disconnect)
  from a b 0 1 2 3 e show ?thesis by blast
qed

text \<open>
  Claim C5. The state of a report is fixed by its event kind: \<open>LOADED\<close> gives \<open>Loaded\<close>,
  \<open>UNLOADED\<close> gives \<open>Unloaded\<close>, \<open>LOAD_FAILED\<close> and \<open>LOAD_FAIL_MEMORY\<close> give
  \<open>LoadFailed\<close>, and every other kind gives \<open>ModelReplicaStateUnknown\<close>. No kind is
  rejected: whatever the kind, \<open>AgentEvent\<close> calls \<open>UpdateModelState\<close> with the state of the
  kind, for the model, version, server and replica of the report.
\<close>

theorem AgentEvent_maps_event_to_state:
  "AgentEvent_state LOADED = Loaded \<and>
   AgentEvent_state UNLOADED = Unloaded \<and>
   AgentEvent_state LOAD_FAILED = LoadFailed \<and>
   AgentEvent_state LOAD_FAIL_MEMORY = LoadFailed \<and>
   (\<forall>ev. ev \<noteq> LOADED \<and> ev \<noteq> UNLOADED \<and> ev \<noteq> LOAD_FAILED \<and> ev \<noteq> LOAD_FAIL_MEMORY \<longrightarrow>
      AgentEvent_state ev = ModelReplicaStateUnknown) \<and>
   (\<exists>r. StoreUpdateModelState (msg_ModelName message) (msg_ModelVersion message)
           (msg_ServerName message) (uint (msg_ReplicaIdx message))
           (Some (msg_AvailableMemoryBytes message)) (AgentEvent_state (msg_Event message))
           (msg_Message message) r
         \<in> set (snd (AgentEvent env message h)))"
proof (intro conjI allI impI)
  fix ev
  assume "ev \<noteq> LOADED \<and> ev \<noteq> UNLOADED \<and> ev \<noteq> LOAD_FAILED \<and> ev \<noteq> LOAD_FAIL_MEMORY"
  then show "AgentEvent_state ev = ModelReplicaStateUnknown"
    by (cases ev) simp_all
next
  show "\<exists>r. StoreUpdateModelState (msg_ModelName message) (msg_ModelVersion message)
           (msg_ServerName message) (uint (msg_ReplicaIdx message))
           (Some (msg_AvailableMemoryBytes message)) (AgentEvent_state (msg_Event message))
           (msg_Message message) r
         \<in> set (snd (AgentEvent env message h))"
    by (auto simp: AgentEvent_def Let_def split: option.splits)
qed simp_all

theorem AgentEvent_maps_event_to_state_witness:
  "OTHER_EVENT 7 \<noteq> LOADED \<and> OTHER_EVENT 7 \<noteq> UNLOADED \<and> OTHER_EVENT 7 \<noteq> LOAD_FAILED \<and>
   OTHER_EVENT 7 \<noteq> LOAD_FAIL_MEMORY \<and>
   AgentEvent_state (OTHER_EVENT 7) = ModelReplicaStateUnknown \<and>
   (\<exists>r. StoreUpdateModelState ''wine'' 1 ''serverA'' 1 (Some 0) ModelReplicaStateUnknown
           ''out of memory'' r
         \<in> set (snd (AgentEvent example_env example_failed_report [])))"
proof -
  note inst = AgentEvent_maps_event_to_state [of example_failed_report example_env "[]"]
  have d: "OTHER_EVENT 7 \<noteq> LOADED \<and> OTHER_EVENT 7 \<noteq> UNLOADED \<and> OTHER_EVENT 7 \<noteq> LOAD_FAILED \<and>
   OTHER_EVENT 7 \<noteq> LOAD_FAIL_MEMORY"
    by simp
  from inst [THEN conjunct2, THEN conjunct2, THEN conjunct2, THEN conjunct2, THEN conjunct1,
      rule_format, OF d]
  have 1: "AgentEvent_state (OTHER_EVENT 7) = ModelReplicaStateUnknown" .
  from inst [THEN conjunct2, THEN conjunct2, THEN conjunct2, THEN conjunct2, THEN conjunct2]
  have 2: "\<exists>r. StoreUpdateModelState ''wine'' 1 ''serverA'' 1 (Some 0) ModelReplicaStateUnknown
           ''out of memory'' r
         \<in> set (snd (AgentEvent example_env example_failed_report []))"
    by (simp add: example_failed_report_def)
  from d 1 2 show ?thesis by simp
qed

text \<open>
  Claim C6. \<open>AgentEvent\<close> calls \<open>UpdateModelState\<close> once, and its result follows the answer
  of that call: when the store answers with an error, \<open>AgentEvent\<close> returns the status error
  with the code \<open>Internal\<close> and the text of the store's error; when the store answers without
  error, it returns the response and no error. So it returns an error exactly when the
  update fails.
\<close>

theorem AgentEvent_error_iff_update_fails:
  assumes "AgentEvent env message h = (res, t)"
  shows "\<exists>err. filter is_StoreUpdateModelState t =
                  [StoreUpdateModelState (msg_ModelName message) (msg_ModelVersion message)
                     (msg_ServerName message) (uint (msg_ReplicaIdx message))
                     (Some (msg_AvailableMemoryBytes message)) (AgentEvent_state (msg_Event message))
                     (msg_Message message) err] \<and>
               (isl res \<longleftrightarrow> err \<noteq> None) \<and>
               (case err of
                  Some e \<Rightarrow> res = Inl (StatusError Internal (Error_text e))
                | None \<Rightarrow> res = Inr ModelEventResponse)"
  using assms by (auto simp: AgentEvent_def Let_def split: option.splits)

theorem AgentEvent_error_iff_update_fails_witness:
  "AgentEvent example_env example_failed_report [] =
     (Inl (StatusError Internal ''model not found''),
      [Log LogInfo ''Updating state for model %s to %s'',
       StoreUpdateModelState ''wine'' 1 ''serverA'' 1 (Some 0) ModelReplicaStateUnknown
         ''out of memory'' (Some (GoError ''model not found'')),
       Log LogInfo ''Failed Updating state for model %s'']) \<and>
   AgentEvent example_env example_report [] =
     (Inr ModelEventResponse,
      [Log LogInfo ''Updating state for model %s to %s'',
       StoreUpdateModelState ''iris'' 2 ''serverA'' 0 (Some 1000) Loaded [] None])"
proof -
  obtain res t where a: "AgentEvent example_env example_failed_report [] = (res, t)"
    by (cases "AgentEvent example_env example_failed_report []")
  obtain res' t' where b: "AgentEvent example_env example_report [] = (res', t')"
    by (cases "AgentEvent example_env example_report []")
  have t: "t = [Log LogInfo ''Updating state for model %s to %s'',
       StoreUpdateModelState ''wine'' 1 ''serverA'' 1 (Some 0) ModelReplicaStateUnknown
         ''out of memory'' (Some (GoError ''model not found'')),
       Log LogInfo ''Failed Updating state for model %s'']"
    using a by (auto simp: AgentEvent_def Let_def example_env_def example_failed_report_def)
  have t': "t' = [Log LogInfo ''Updating state for model %s to %s'',
       StoreUpdateModelState ''iris'' 2 ''serverA'' 0 (Some 1000) Loaded [] None]"
    using b by (auto simp: AgentEvent_def Let_def example_env_def example_report_def)
  from AgentEvent_error_iff_update_fails [OF a] t
  have "res = Inl (StatusError Internal ''model not found'')"
    by (auto simp: example_failed_report_def)
  moreover from AgentEvent_error_iff_update_fails [OF b] t'
  have "res' = Inr ModelEventResponse"
    by (auto simp: example_report_def)
  ultimately show ?thesis using a b t t' by simp
qed

text \<open>
  Claim C10. When the initial synchronisation of \<open>Subscribe\<close> fails, that is when
  \<open>AddServerReplica\<close> or \<open>ScheduleFailedModels\<close> answers with an error, \<open>Subscribe\<close> returns
  that error, whatever signal would come later, and the registry is the one it had before
  with the record of this connection stored under the replica's key: the record is not
  removed, and \<open>RemoveServerReplica\<close> is not called.
\<close>

theorem Subscribe_failed_initial_sync_keeps_entry:
  assumes "Subscribe env s request strm fin sig h = (s', out, t)"
    and "StoreAddServerReplica request (Some e) \<in> set t \<or>
         SchedulerScheduleFailedModels (Some e) \<in> set t"
  shows "out = Returned (Some e) \<and>
         agents s' =
           (agents s)(\<lparr>serverName = req_ServerName request, replicaIdx = req_ReplicaIdx request\<rparr>
              \<mapsto> \<lparr>finished = fin, stream = strm\<rparr>) \<and>
         agents s' \<lparr>serverName = req_ServerName request, replicaIdx = req_ReplicaIdx request\<rparr> =
           Some \<lparr>finished = fin, stream = strm\<rparr> \<and>
         filter is_StoreRemoveServerReplica t = []"
proof -
  let ?t1 = "[Log LogInfo ''Received subscribe request from %s:%d'']"
  obtain err ts where sm: "syncMessage env request strm (h @ ?t1) = (err, ts)"
    by (cases "syncMessage env request strm (h @ ?t1)")
  have rs: "StoreAddServerReplica request (Some e) \<notin> set (Subscribe_reschedule env ms h')"
    "SchedulerScheduleFailedModels (Some e) \<notin> set (Subscribe_reschedule env ms h')" for ms h'
    by (auto dest: Subscribe_reschedule_events)
  have "err = Some e"
  proof (cases err)
    case None
    with sm have "StoreAddServerReplica request (Some e) \<notin> set ts"
      and "SchedulerScheduleFailedModels (Some e) \<notin> set ts"
      by (auto simp: syncMessage_def Let_def split: option.splits)
    with assms sm None rs show ?thesis
      by (auto simp: Subscribe_def Let_def split: Signal.splits option.splits)
  next
    case (Some e')
    with sm have "StoreAddServerReplica request (Some e) \<in> set ts \<or>
                  SchedulerScheduleFailedModels (Some e) \<in> set ts"
      using assms by (auto simp: Subscribe_def Let_def)
    with sm Some show ?thesis
      by (auto simp: syncMessage_def Let_def split: option.splits)
  qed
  with assms(1) sm have "out = Returned (Some e)"
    and "s' = s\<lparr>agents := (agents s)(\<lparr>serverName = req_ServerName request,
                   replicaIdx = req_ReplicaIdx request\<rparr> \<mapsto> \<lparr>finished = fin, stream = strm\<rparr>)\<rparr>"
    and "t = ?t1 @ ts"
    by (simp_all add: Subscribe_def Let_def)
  moreover have "filter is_StoreRemoveServerReplica ts = []"
    using sm by (auto simp: syncMessage_def Let_def split: option.splits)
  ultimately show ?thesis by simp
qed

text \<open>In the example, the store does not know \<open>serverB\<close>: the subscription of its replica 3
  fails in \<open>AddServerReplica\<close>.\<close>

lemma Subscribe_example_unknown:
  "Subscribe example_env example_server example_unknown_request 12 22 CtxDone [] =
     (example_server\<lparr>agents := (agents example_server)
        (\<lparr>serverName = ''serverB'', replicaIdx = 3\<rparr> \<mapsto> \<lparr>finished = 22, stream = 12\<rparr>)\<rparr>,
      Returned (Some (GoError ''unknown server'')),
      [Log LogInfo ''Received subscribe request from %s:%d'',
       Log LogDebug ''Add Server Replica %+v with config %+v'',
       StoreAddServerReplica example_unknown_request (Some (GoError ''unknown server''))])"
  by (simp add: Subscribe_def syncMessage_def Let_def example_env_def example_unknown_request_def)

theorem Subscribe_failed_initial_sync_keeps_entry_witness:
  "StoreAddServerReplica example_unknown_request (Some (GoError ''unknown server''))
     \<in> set (snd (snd (Subscribe example_env example_server example_unknown_request 12 22 CtxDone []))) \<and>
   fst (snd (Subscribe example_env example_server example_unknown_request 12 22 CtxDone [])) =
     Returned (Some (GoError ''unknown server'')) \<and>
   agents (fst (Subscribe example_env example_server example_unknown_request 12 22 CtxDone []))
     \<lparr>serverName = ''serverB'', replicaIdx = 3\<rparr> = Some \<lparr>finished = 22, stream = 12\<rparr>"
proof -
  let ?S = "Subscribe example_env example_server example_unknown_request 12 22 CtxDone []"
  have run: "?S = (fst ?S, fst (snd ?S), snd (snd ?S))" by simp
  have ev: "StoreAddServerReplica example_unknown_request (Some (GoError ''unknown server''))
              \<in> set (snd (snd ?S))"
    by (simp add: Subscribe_example_unknown)
  have k: "\<lparr>serverName = req_ServerName example_unknown_request,
            replicaIdx = req_ReplicaIdx example_unknown_request\<rparr> =
           \<lparr>serverName = ''serverB'', replicaIdx = 3\<rparr>"
    by (simp add: example_unknown_request_def)
  from Subscribe_failed_initial_sync_keeps_entry [OF run disjI1, OF ev]
  have "fst (snd ?S) = Returned (Some (GoError ''unknown server''))"
    and "agents (fst ?S) \<lparr>serverName = ''serverB'', replicaIdx = 3\<rparr> =
           Some \<lparr>finished = 22, stream = 12\<rparr>"
    unfolding k by blast+
  with ev show ?thesis by blast
qed

text \<open>
  Claim C9, as the code has it. Once the initial synchronisation has succeeded
  (\<open>AddServerReplica\<close> and \<open>ScheduleFailedModels\<close> have answered without error), the handler
  waits. When the stream's context ends, \<open>Subscribe\<close> returns \<open>nil\<close> and the replica's key
  is absent from the registry, whatever \<open>RemoveServerReplica\<close> and \<open>Schedule\<close> answer.
  When the close signal comes on \<open>fin\<close>, \<open>Subscribe\<close> returns \<open>nil\<close> and has not touched
  the registry since it stored the record of this connection: the record is still there
  under the replica's key, and neither \<open>RemoveServerReplica\<close> nor \<open>Schedule\<close> is called.
  As long as neither comes, \<open>Subscribe\<close> does not return and the record stays.
\<close>

theorem Subscribe_registry_after_close:
  assumes "Subscribe env s request strm fin sig h = (s', out, t)"
    and "StoreAddServerReplica request None \<in> set t"
    and "SchedulerScheduleFailedModels None \<in> set t"
  shows "(sig = CtxDone \<longrightarrow>
            out = Returned None \<and>
            agents s' =
              (agents s)(\<lparr>serverName = req_ServerName request, replicaIdx = req_ReplicaIdx request\<rparr>
                 := None) \<and>
            agents s' \<lparr>serverName = req_ServerName request, replicaIdx = req_ReplicaIdx request\<rparr> = None) \<and>
         (sig = Fin \<longrightarrow>
            out = Returned None \<and>
            agents s' =
              (agents s)(\<lparr>serverName = req_ServerName request, replicaIdx = req_ReplicaIdx request\<rparr>
                 \<mapsto> \<lparr>finished = fin, stream = strm\<rparr>) \<and>
            agents s' \<lparr>serverName = req_ServerName request, replicaIdx = req_ReplicaIdx request\<rparr> =
              Some \<lparr>finished = fin, stream = strm\<rparr> \<and>
            filter is_StoreRemoveServerReplica t = [] \<and> filter is_SchedulerSchedule t = []) \<and>
         (sig = NoSignal \<longrightarrow>
            out = Blocked \<and>
            agents s' \<lparr>serverName = req_ServerName request, replicaIdx = req_ReplicaIdx request\<rparr> =
              Some \<lparr>finished = fin, stream = strm\<rparr>)"
proof -
  let ?t1 = "[Log LogInfo ''Received subscribe request from %s:%d'']"
  from Subscribe_sync_succeeded [OF assms(1,3)]
  obtain ts where sm: "syncMessage env request strm (h @ ?t1) = (None, ts)" by blast
  have ts: "filter is_StoreRemoveServerReplica ts = []" "filter is_SchedulerSchedule ts = []"
    using sm by (auto simp: syncMessage_def Let_def split: option.splits)
  from assms(1) sm ts show ?thesis
    by (cases sig) (auto simp: Subscribe_def Let_def)
qed

lemma Subscribe_example_close:
  "Subscribe example_env \<lparr>agents = Map.empty\<rparr> example_request 10 20 Fin [] =
    (\<lparr>agents = [\<lparr>serverName = ''serverA'', replicaIdx = 0\<rparr> \<mapsto> \<lparr>finished = 20, stream = 10\<rparr>]\<rparr>,
     Returned None,
     [Log LogInfo ''Received subscribe request from %s:%d'',
      Log LogDebug ''Add Server Replica %+v with config %+v'',
      StoreAddServerReplica example_request None,
      SchedulerScheduleFailedModels None,
      Log LogInfo ''Closing stream for replica: %s:%d''])"
  by (simp add: Subscribe_def syncMessage_def Let_def example_env_def example_request_def)

theorem Subscribe_registry_after_close_witness:
  "StoreAddServerReplica example_request None
     \<in> set (snd (snd (Subscribe example_env_remove_fails example_server example_request 10 20 CtxDone []))) \<and>
   SchedulerScheduleFailedModels None
     \<in> set (snd (snd (Subscribe example_env_remove_fails example_server example_request 10 20 CtxDone []))) \<and>
   StoreRemoveServerReplica ''serverA'' 0 [''iris''] (Some (GoError ''replica not found''))
     \<in> set (snd (snd (Subscribe example_env_remove_fails example_server example_request 10 20 CtxDone []))) \<and>
   fst (snd (Subscribe example_env_remove_fails example_server example_request 10 20 CtxDone [])) =
     Returned None \<and>
   agents (fst (Subscribe example_env_remove_fails example_server example_request 10 20 CtxDone []))
     \<lparr>serverName = ''serverA'', replicaIdx = 0\<rparr> = None \<and>
   StoreAddServerReplica example_request None
     \<in> set (snd (snd (Subscribe example_env \<lparr>agents = Map.empty\<rparr> example_request 10 20 Fin []))) \<and>
   SchedulerScheduleFailedModels None
     \<in> set (snd (snd (Subscribe example_env \<lparr>agents = Map.empty\<rparr> example_request 10 20 Fin []))) \<and>
   fst (snd (Subscribe example_env \<lparr>agents = Map.empty\<rparr> example_request 10 20 Fin [])) =
     Returned None \<and>
   agents (fst (Subscribe example_env \<lparr>agents = Map.empty\<rparr> example_request 10 20 Fin []))
     \<lparr>serverName = ''serverA'', replicaIdx = 0\<rparr> = Some \<lparr>finished = 20, stream = 10\<rparr>"
proof -
  let ?D = "Subscribe example_env_remove_fails example_server example_request 10 20 CtxDone []"
  let ?F = "Subscribe example_env \<lparr>agents = Map.empty\<rparr> example_request 10 20 Fin []"
  have d: "?D = (fst ?D, fst (snd ?D), snd (snd ?D))" by simp
  have f: "?F = (fst ?F, fst (snd ?F), snd (snd ?F))" by simp
  have da: "StoreAddServerReplica example_request None \<in> set (snd (snd ?D))"
    and db: "SchedulerScheduleFailedModels None \<in> set (snd (snd ?D))"
    and dr: "StoreRemoveServerReplica ''serverA'' 0 [''iris''] (Some (GoError ''replica not found''))
               \<in> set (snd (snd ?D))"
    by (simp_all add: Subscribe_example_remove_fails)
  have fa: "StoreAddServerReplica example_request None \<in> set (snd (snd ?F))"
    and fb: "SchedulerScheduleFailedModels None \<in> set (snd (snd ?F))"
    by (simp_all add: Subscribe_example_close)
  have k: "\<lparr>serverName = req_ServerName example_request,
            replicaIdx = req_ReplicaIdx example_request\<rparr> =
           \<lparr>serverName = ''serverA'', replicaIdx = 0\<rparr>"
    by (simp add: example_request_def)
  from Subscribe_registry_after_close [OF d da db]
  have 1: "fst (snd ?D) = Returned None"
    and 2: "agents (fst ?D) \<lparr>serverName = ''serverA'', replicaIdx = 0\<rparr> = None"
    unfolding k by blast+
  from Subscribe_registry_after_close [OF f fa fb]
  have 3: "fst (snd ?F) = Returned None"
    and 4: "agents (fst ?F) \<lparr>serverName = ''serverA'', replicaIdx = 0\<rparr> =
             Some \<lparr>finished = 20, stream = 10\<rparr>"
    unfolding k by blast+
  from da db dr fa fb 1 2 3 4 show ?thesis by blast
qed

text \<open>
  The registry is not cleared on both paths: in the example, the handler of replica 0 of
  \<open>serverA\<close> returns on the close signal, and the record is still in the registry.
\<close>

theorem Subscribe_close_signal_keeps_entry_counterexample:
  "fst (snd (Subscribe example_env \<lparr>agents = Map.empty\<rparr> example_request 10 20 Fin [])) =
     Returned None \<and>
   agents (fst (Subscribe example_env \<lparr>agents = Map.empty\<rparr> example_request 10 20 Fin []))
     \<lparr>serverName = ''serverA'', replicaIdx = 0\<rparr> \<noteq> None"
  by (simp add: Subscribe_example_close)

text \<open>
  Claim C8, as the code has it. Once it has stored the record of the connection, \<open>Subscribe\<close>
  calls \<open>AddServerReplica\<close> with the request and, when that succeeds,
  \<open>ScheduleFailedModels\<close>; these are the only calls of its initial synchronisation, and
  \<open>syncMessage\<close> returns the first error among them. At no point does \<open>Subscribe\<close> read a
  model or send a command on a stream: load and unload commands that are pending for the
  replica are sent by later passes of \<open>Sync\<close>.
\<close>

theorem Subscribe_initial_sync_calls:
  "filter is_StreamSend (snd (snd (Subscribe env s request strm fin sig h))) = [] \<and>
   filter is_StoreGetModel (snd (snd (Subscribe env s request strm fin sig h))) = [] \<and>
   agents (fst (Subscribe env s request strm fin NoSignal h)) =
     (agents s)(\<lparr>serverName = req_ServerName request, replicaIdx = req_ReplicaIdx request\<rparr>
        \<mapsto> \<lparr>finished = fin, stream = strm\<rparr>) \<and>
   (\<exists>err err2.
      filter (\<lambda>e. \<not> is_Log e) (snd (snd (Subscribe env s request strm fin NoSignal h))) =
        StoreAddServerReplica request err #
          (case err of Some e \<Rightarrow> [] | None \<Rightarrow> [SchedulerScheduleFailedModels err2]) \<and>
      fst (snd (Subscribe env s request strm fin NoSignal h)) =
        (case err of
           Some e \<Rightarrow> Returned (Some e)
         | None \<Rightarrow> (case err2 of Some e \<Rightarrow> Returned (Some e) | None \<Rightarrow> Blocked)))"
proof (intro conjI)
  have "\<not> is_StreamSend e \<and> \<not> is_StoreGetModel e"
    if "e \<in> set (snd (snd (Subscribe env s request strm fin sig h)))" for e
    using Subscribe_events [OF that] by (cases e) simp_all
  then show "filter is_StreamSend (snd (snd (Subscribe env s request strm fin sig h))) = []"
    and "filter is_StoreGetModel (snd (snd (Subscribe env s request strm fin sig h))) = []"
    by (simp_all add: filter_empty_conv)
next
  show "agents (fst (Subscribe env s request strm fin NoSignal h)) =
     (agents s)(\<lparr>serverName = req_ServerName request, replicaIdx = req_ReplicaIdx request\<rparr>
        \<mapsto> \<lparr>finished = fin, stream = strm\<rparr>)"
    by (simp add: Subscribe_def Let_def split: prod.splits option.splits)
next
  show "\<exists>err err2.
      filter (\<lambda>e. \<not> is_Log e) (snd (snd (Subscribe env s request strm fin NoSignal h))) =
        StoreAddServerReplica request err #
          (case err of Some e \<Rightarrow> [] | None \<Rightarrow> [SchedulerScheduleFailedModels err2]) \<and>
      fst (snd (Subscribe env s request strm fin NoSignal h)) =
        (case err of
           Some e \<Rightarrow> Returned (Some e)
         | None \<Rightarrow> (case err2 of Some e \<Rightarrow> Returned (Some e) | None \<Rightarrow> Blocked))"
    by (auto simp: Subscribe_def syncMessage_def Let_def split: option.splits)
qed

lemma Subscribe_example_wait:
  "Subscribe example_env \<lparr>agents = Map.empty\<rparr> example_request 10 20 NoSignal [] =
    (\<lparr>agents = [\<lparr>serverName = ''serverA'', replicaIdx = 0\<rparr> \<mapsto> \<lparr>finished = 20, stream = 10\<rparr>]\<rparr>,
     Blocked,
     [Log LogInfo ''Received subscribe request from %s:%d'',
      Log LogDebug ''Add Server Replica %+v with config %+v'',
      StoreAddServerReplica example_request None,
      SchedulerScheduleFailedModels None])"
  by (simp add: Subscribe_def syncMessage_def Let_def example_env_def example_request_def)

text \<open>
  The handler is not a replay of the reconciliation: in the example, replica 0 of \<open>serverA\<close>
  subscribes while the model \<open>iris\<close> has a load and an unload pending on it. Replaying
  \<open>Sync\<close> for \<open>iris\<close> with the registry the handler has built sends both commands; the
  handler, up to the point where it waits, sends none.
\<close>

theorem Subscribe_sends_no_command_counterexample:
  "filter is_StreamSend
     (snd (snd (Subscribe example_env \<lparr>agents = Map.empty\<rparr> example_request 10 20 NoSignal []))) = [] \<and>
   filter is_StreamSend
     (Subscribe_initial_sync_spec example_env
        (fst (Subscribe example_env \<lparr>agents = Map.empty\<rparr> example_request 10 20 NoSignal []))
        [''iris''] []) =
     [StreamSend \<lparr>serverName = ''serverA'', replicaIdx = 0\<rparr> 10
        \<lparr>Operation = LOAD_MODEL, ModelVersion = \<lparr>Model = ''iris'', Version = 2\<rparr>\<rparr> None,
      StreamSend \<lparr>serverName = ''serverA'', replicaIdx = 0\<rparr> 10
        \<lparr>Operation = UNLOAD_MODEL, ModelVersion = \<lparr>Model = ''iris'', Version = 1\<rparr>\<rparr> None]"
  unfolding Subscribe_example_wait
  by (simp add: Subscribe_initial_sync_spec_def Sync_def Let_def
        Sync_load_replica_def Sync_unload_replica_def
        example_env_def example_model_def example_latest_def example_old_def)

end
